theory Spec2Isabelle
  imports Complex_Main "HOL-Library.Char_ord" "HOL-Library.List_Lexorder" "HOL-Library.Sublist"
begin

text \<open>
  A shallow embedding of the analysis pipeline of the news aggregator's server
  (\<open>server/index.js\<close>): the vector math, the upsert of articles, the initial article load,
  the clusterer, the labeler, the cluster statistics and the coherence refiner with its
  split transaction. Numbers are IEEE doubles with their rounding; exceptions and failed
  SQL statements are values of sum types; what the environment supplies (the clock, the
  generative model, \<open>JSON.parse\<close>, case folding, fresh ids) is a parameter.
\<close>

section \<open>JavaScript numbers\<close>

text \<open>
  A JavaScript number is an IEEE 754 double: a finite value (a rational that the format
  represents), an infinity or NaN. The sign of zero is not modelled: every division of the
  modelled code has a divisor guarded by \<open>|| 1\<close> or a non-zero length, and nothing else
  in it observes the sign of a zero.
\<close>

datatype jsnum = Fin rat | PInf | NInf | NaN

text \<open>Number of binary digits of a positive integer.\<close>

function bitlen :: "int \<Rightarrow> nat" where
  "bitlen a = (if a \<le> 0 then 0 else Suc (bitlen (a div 2)))"
  by pat_completeness auto
termination
  by (relation "measure nat") auto

declare bitlen.simps [simp del]

text \<open>The binary exponent of a positive rational: \<open>2 powi expo q \<le> q < 2 powi (expo q + 1)\<close>.\<close>

definition expo :: "rat \<Rightarrow> int" where
  "expo q = (if 1 \<le> q then int (bitlen \<lfloor>q\<rfloor>) - 1
             else let k = int (bitlen \<lfloor>1 / q\<rfloor>) - 1
                  in if q = 2 powi (- k) then - k else - k - 1)"

text \<open>Round to the nearest integer, ties to even.\<close>

definition rhe :: "rat \<Rightarrow> int" where
  "rhe x = (let f = \<lfloor>x\<rfloor>; d = x - of_int f
            in if d < 1 / 2 then f else if 1 / 2 < d then f + 1
               else if even f then f else f + 1)"

text \<open>
  Rounding of an exact result to the nearest double (53-bit significand, ties to even,
  gradual underflow below \<open>2 powi - 1022\<close>, overflow to an infinity from \<open>2 powi 1024\<close>).
\<close>

definition rnd :: "rat \<Rightarrow> jsnum" where
  "rnd q = (if q = 0 then Fin 0
            else let e = max (expo \<bar>q\<bar>) (- 1022); ulp = 2 powi (e - 52);
                     r = of_int (rhe (q / ulp)) * ulp
                 in if 2 powi 1024 \<le> r then PInf
                    else if r \<le> - (2 powi 1024) then NInf else Fin r)"

text \<open>Integer square root, and the correctly rounded square root of a positive rational.\<close>

function isqrt :: "int \<Rightarrow> int" where
  "isqrt n = (if n < 1 then 0
              else let r = 2 * isqrt (n div 4) in if (r + 1) * (r + 1) \<le> n then r + 1 else r)"
  by pat_completeness auto
termination
  by (relation "measure nat") auto

declare isqrt.simps [simp del]

definition sqrt_rnd :: "rat \<Rightarrow> rat" where
  "sqrt_rnd q = (let ulp = 2 powi (expo q div 2 - 52); x = q / (ulp * ulp);
                     m = isqrt \<lfloor>x\<rfloor>; h = of_int (m * m + m) + 1 / 4
                 in of_int (if x < h then m else if h < x then m + 1
                            else if even m then m else m + 1) * ulp)"

fun fneg :: "jsnum \<Rightarrow> jsnum" where
  "fneg (Fin a) = Fin (- a)"
| "fneg PInf = NInf"
| "fneg NInf = PInf"
| "fneg NaN = NaN"

fun fadd :: "jsnum \<Rightarrow> jsnum \<Rightarrow> jsnum" where
  "fadd NaN _ = NaN"
| "fadd _ NaN = NaN"
| "fadd (Fin a) (Fin b) = rnd (a + b)"
| "fadd PInf NInf = NaN"
| "fadd NInf PInf = NaN"
| "fadd PInf _ = PInf"
| "fadd _ PInf = PInf"
| "fadd NInf _ = NInf"
| "fadd _ NInf = NInf"

definition fsub :: "jsnum \<Rightarrow> jsnum \<Rightarrow> jsnum" where
  "fsub a b = fadd a (fneg b)"

fun sign_of :: "jsnum \<Rightarrow> int" where
  "sign_of (Fin a) = (if a < 0 then - 1 else if a = 0 then 0 else 1)"
| "sign_of PInf = 1"
| "sign_of NInf = - 1"
| "sign_of NaN = 0"

definition signed_inf :: "int \<Rightarrow> jsnum" where
  "signed_inf s = (if s = 0 then NaN else if 0 < s then PInf else NInf)"

fun fmul :: "jsnum \<Rightarrow> jsnum \<Rightarrow> jsnum" where
  "fmul NaN _ = NaN"
| "fmul _ NaN = NaN"
| "fmul (Fin a) (Fin b) = rnd (a * b)"
| "fmul a b = signed_inf (sign_of a * sign_of b)"

fun fdiv :: "jsnum \<Rightarrow> jsnum \<Rightarrow> jsnum" where
  "fdiv NaN _ = NaN"
| "fdiv _ NaN = NaN"
| "fdiv (Fin a) (Fin b) = (if b = 0 then signed_inf (sign_of (Fin a)) else rnd (a / b))"
| "fdiv (Fin a) _ = Fin 0"
| "fdiv a (Fin b) = signed_inf (sign_of a * (if b < 0 then - 1 else 1))"
| "fdiv _ _ = NaN"

fun Math_sqrt :: "jsnum \<Rightarrow> jsnum" where
  "Math_sqrt (Fin a) = (if a < 0 then NaN else if a = 0 then Fin 0 else Fin (sqrt_rnd a))"
| "Math_sqrt PInf = PInf"
| "Math_sqrt _ = NaN"

fun Math_abs :: "jsnum \<Rightarrow> jsnum" where
  "Math_abs (Fin a) = Fin \<bar>a\<bar>"
| "Math_abs NaN = NaN"
| "Math_abs _ = PInf"

text \<open>\<open>Math.round\<close>: the nearest integer, a tie going up.\<close>

fun Math_round :: "jsnum \<Rightarrow> jsnum" where
  "Math_round (Fin a) = Fin (of_int \<lfloor>a + 1 / 2\<rfloor>)"
| "Math_round x = x"

text \<open>The comparisons \<open><\<close>, \<open>>\<close> and \<open>>=\<close>; each is false when an operand is NaN.\<close>

fun flt :: "jsnum \<Rightarrow> jsnum \<Rightarrow> bool" where
  "flt NaN _ = False"
| "flt _ NaN = False"
| "flt (Fin a) (Fin b) = (a < b)"
| "flt _ NInf = False"
| "flt NInf _ = True"
| "flt PInf _ = False"
| "flt _ PInf = True"

definition fgt :: "jsnum \<Rightarrow> jsnum \<Rightarrow> bool" where
  "fgt a b = flt b a"

definition fge :: "jsnum \<Rightarrow> jsnum \<Rightarrow> bool" where
  "fge a b = (a \<noteq> NaN \<and> b \<noteq> NaN \<and> \<not> flt a b)"

text \<open>A number is falsy when it is zero or NaN; \<open>x || 1\<close>.\<close>

definition truthy :: "jsnum \<Rightarrow> bool" where
  "truthy a = (a \<noteq> Fin 0 \<and> a \<noteq> NaN)"

definition or_one :: "jsnum \<Rightarrow> jsnum" where
  "or_one a = (if truthy a then a else Fin 1)"

definition is_finite :: "jsnum \<Rightarrow> bool" where
  "is_finite a = (case a of Fin _ \<Rightarrow> True | _ \<Rightarrow> False)"

section \<open>Vector math\<close>

type_synonym vec = "jsnum list"

text \<open>
  The accumulation loop of \<open>cosineSimilarity\<close>, which runs over the indices of \<open>vecA\<close>;
  it is only entered with arrays of equal length.
\<close>

fun cos_loop :: "vec \<Rightarrow> vec \<Rightarrow> jsnum \<times> jsnum \<times> jsnum \<Rightarrow> jsnum \<times> jsnum \<times> jsnum" where
  "cos_loop (a # as) (b # bs) (dot, magA, magB) =
     cos_loop as bs (fadd dot (fmul a b), fadd magA (fmul a a), fadd magB (fmul b b))"
| "cos_loop _ _ acc = acc"

definition cosineSimilarity :: "vec option \<Rightarrow> vec option \<Rightarrow> jsnum" where
  "cosineSimilarity vecA vecB =
     (case vecA of None \<Rightarrow> Fin 0
      | Some a \<Rightarrow>
         (case vecB of None \<Rightarrow> Fin 0
          | Some b \<Rightarrow>
             if length a \<noteq> length b then Fin 0
             else (case cos_loop a b (Fin 0, Fin 0, Fin 0) of
                     (dot, magA, magB) \<Rightarrow> fdiv dot (or_one (fmul (Math_sqrt magA) (Math_sqrt magB))))))"

text \<open>\<open>vecB[i]\<close> inside arithmetic: a read past the end gives \<open>undefined\<close>, hence NaN.\<close>

definition nth_num :: "vec \<Rightarrow> nat \<Rightarrow> jsnum" where
  "nth_num v i = (if i < length v then v ! i else NaN)"

definition weightedVectorAdd :: "vec option \<Rightarrow> vec option \<Rightarrow> jsnum \<Rightarrow> jsnum \<Rightarrow> vec option" where
  "weightedVectorAdd vecA vecB weightA weightB =
     (case vecA of None \<Rightarrow> vecB
      | Some a \<Rightarrow>
         (case vecB of None \<Rightarrow> Some a
          | Some b \<Rightarrow>
             Some (map (\<lambda>i. fadd (fmul (nth_num a i) weightA) (fmul (nth_num b i) weightB))
                       [0..<length a])))"

definition normalizeVector :: "vec \<Rightarrow> vec" where
  "normalizeVector v =
     (let mag = Math_sqrt (foldl (\<lambda>sum val. fadd sum (fmul val val)) (Fin 0) v)
      in map (\<lambda>val. fdiv val (or_one mag)) v)"

section \<open>The store: tables \<open>news_articles\<close> and \<open>news_clusters\<close>\<close>

text \<open>
  A row of \<open>news_articles\<close> as created by \<open>initDb\<close>. Every column is nullable TEXT
  (\<open>None\<close> is SQL NULL); the primary key column \<open>id\<close> is called \<open>a_id\<close> here.
  The \<open>embedding\<close> column holds JSON text: \<open>EmbJson v\<close> is text that \<open>JSON.parse\<close>
  turns into the array \<open>v\<close>, \<open>EmbBad\<close> is text that \<open>JSON.parse\<close> rejects.
\<close>

datatype embedding_col = EmbNull | EmbBad | EmbJson vec

record article_row =
  a_id :: "string option"
  source_id :: "string option"
  source_name :: "string option"
  bias_rating :: "string option"
  factuality :: "string option"
  headline :: "string option"
  url :: "string option"
  pub_date :: "string option"
  fetched_at :: "string option"
  summary :: "string option"
  image_url :: "string option"
  cluster_id :: "string option"
  embedding :: embedding_col
  entities :: "string list option"

text \<open>
  An element of the JSON array posted to \<open>/api/articles\<close> (camelCase properties;
  a missing property is \<open>None\<close>).
\<close>

record incoming_article =
  r_id :: "string option"
  sourceId :: "string option"
  sourceName :: "string option"
  biasRating :: "string option"
  r_factuality :: "string option"
  r_headline :: "string option"
  r_url :: "string option"
  r_pubDate :: "string option"
  fetchedAt :: "string option"
  r_summary :: "string option"
  imageUrl :: "string option"
  clusterId :: "string option"
  r_embedding :: "vec option"
  r_entities :: "string list option"

datatype sql_error = SQLITE_CONSTRAINT

text \<open>\<open>a.clusterId || null\<close>: the empty string is falsy.\<close>

definition or_null :: "string option \<Rightarrow> string option" where
  "or_null s = (case s of None \<Rightarrow> None | Some x \<Rightarrow> if x = [] then None else Some x)"

text \<open>The parameter list bound by \<open>stmt.run\<close> in \<open>app.post('/api/articles')\<close>: the excluded row.\<close>

definition excluded_row :: "incoming_article \<Rightarrow> article_row" where
  "excluded_row a =
     \<lparr> a_id = r_id a, source_id = sourceId a, source_name = sourceName a,
       bias_rating = biasRating a, factuality = r_factuality a, headline = r_headline a,
       url = r_url a, pub_date = r_pubDate a, fetched_at = fetchedAt a,
       summary = r_summary a, image_url = imageUrl a,
       cluster_id = or_null (clusterId a),
       embedding = (case r_embedding a of None \<Rightarrow> EmbNull | Some v \<Rightarrow> EmbJson v),
       entities = r_entities a \<rparr>"

text \<open>\<open>COALESCE(x, y)\<close>.\<close>

definition COALESCE :: "'a option \<Rightarrow> 'a option \<Rightarrow> 'a option" where
  "COALESCE x y = (case x of None \<Rightarrow> y | Some v \<Rightarrow> Some v)"

text \<open>
  \<open>ON CONFLICT(id) DO UPDATE SET fetched_at = excluded.fetched_at,
  headline = excluded.headline, image_url = COALESCE(image_url, excluded.image_url)\<close>.
\<close>

definition do_update :: "article_row \<Rightarrow> article_row \<Rightarrow> article_row" where
  "do_update old ex =
     old \<lparr> fetched_at := fetched_at ex, headline := headline ex,
           image_url := COALESCE (image_url old) (image_url ex) \<rparr>"

text \<open>
  One \<open>stmt.run\<close> of the upsert. A NULL key never conflicts. The conflict target \<open>id\<close>
  is examined before the UNIQUE constraint on \<open>url\<close>; a plain insert whose \<open>url\<close> is
  already taken by a row fails and changes nothing.
\<close>

definition id_conflict :: "article_row \<Rightarrow> article_row \<Rightarrow> bool" where
  "id_conflict ex r \<longleftrightarrow> a_id ex \<noteq> None \<and> a_id r = a_id ex"

definition url_conflict :: "article_row \<Rightarrow> article_row \<Rightarrow> bool" where
  "url_conflict ex r \<longleftrightarrow> url ex \<noteq> None \<and> url r = url ex"

definition upsert_run :: "article_row list \<Rightarrow> incoming_article \<Rightarrow> sql_error + article_row list" where
  "upsert_run rows a =
     (let ex = excluded_row a in
      if list_ex (id_conflict ex) rows
      then Inr (map (\<lambda>r. if id_conflict ex r then do_update r ex else r) rows)
      else if list_ex (url_conflict ex) rows then Inl SQLITE_CONSTRAINT
      else Inr (rows @ [ex]))"

text \<open>
  The first query of \<open>app.post('/api/pipeline/process')\<close>:
  \<open>SELECT * FROM news_articles WHERE cluster_id IS NULL AND pub_date > ? LIMIT 50\<close>.
  The table is the list of its rows in the order the scan visits them; the query has no
  ORDER BY. \<open>pub_date\<close> and the bound \<open>cutoffDate\<close> are TEXT, compared byte by byte; a NULL
  \<open>pub_date\<close> never satisfies the comparison.
\<close>

definition unclustered_recent :: "string \<Rightarrow> article_row \<Rightarrow> bool" where
  "unclustered_recent cutoffDate r \<longleftrightarrow>
     cluster_id r = None \<and> (case pub_date r of None \<Rightarrow> False | Some d \<Rightarrow> cutoffDate < d)"

definition selectUnclustered :: "string \<Rightarrow> article_row list \<Rightarrow> article_row list" where
  "selectUnclustered cutoffDate rows = take 50 (filter (unclustered_recent cutoffDate) rows)"

section \<open>The clusterer\<close>

text \<open>
  The objects that \<open>clusterArticles\<close>, \<open>generateLabels\<close> and the statistics read. The
  pipeline and the refiner build them as \<open>{...row, embedding: \<dots>}\<close>, so they carry the
  columns of the row (\<open>row\<close>) and the parsed \<open>embedding\<close> property (\<open>obj_embedding\<close>).
  \<open>pubDate\<close> is the camelCase property that \<open>clusterArticles\<close> reads: \<open>None\<close> when it is
  missing or falsy, \<open>Some t\<close> with \<open>t = new Date(article.pubDate).getTime()\<close> otherwise
  (NaN for a date that does not parse). An object spread from a row has no such property.
\<close>

record article =
  row :: article_row
  pubDate :: "jsnum option"
  obj_embedding :: "vec option"

text \<open>The object \<open>{...row, embedding: v}\<close> built from a row and its parsed embedding.\<close>

definition obj :: "article_row \<Rightarrow> vec \<Rightarrow> article" where
  "obj r v = \<lparr>row = r, pubDate = None, obj_embedding = Some v\<rparr>"

record microCluster =
  centroid :: "vec option"
  articles :: "article list"
  latestTime :: jsnum

datatype js_error = TypeError

definition CLUSTERING_THRESHOLD :: jsnum where
  "CLUSTERING_THRESHOLD = rnd (55 / 100)"

definition DUPLICATE_THRESHOLD :: jsnum where
  "DUPLICATE_THRESHOLD = rnd (90 / 100)"

definition MAX_TIME_DIFF_MS :: jsnum where
  "MAX_TIME_DIFF_MS = fmul (fmul (fmul (Fin 48) (Fin 60)) (Fin 60)) (Fin 1000)"

text \<open>\<open>article.pubDate ? new Date(article.pubDate).getTime() : Date.now()\<close>.\<close>

definition articleTime :: "jsnum \<Rightarrow> article \<Rightarrow> jsnum" where
  "articleTime now a = (case pubDate a of None \<Rightarrow> now | Some t \<Rightarrow> t)"

text \<open>
  The callback of \<open>cluster.articles.some\<close>. The parameter \<open>lowtrim\<close> stands for
  \<open>s.toLowerCase().trim()\<close> of the runtime; calling it on a null headline throws.
\<close>

fun duplicateMatch :: "(string \<Rightarrow> string) \<Rightarrow> article \<Rightarrow> article list \<Rightarrow> js_error + bool" where
  "duplicateMatch lowtrim a [] = Inr False"
| "duplicateMatch lowtrim a (existing # rest) =
     (case headline (row existing) of None \<Rightarrow> Inl TypeError
      | Some he \<Rightarrow>
         (case headline (row a) of None \<Rightarrow> Inl TypeError
          | Some ha \<Rightarrow>
             if lowtrim he = lowtrim ha then Inr True
             else if fge (cosineSimilarity (obj_embedding a) (obj_embedding existing)) DUPLICATE_THRESHOLD
             then Inr True
             else duplicateMatch lowtrim a rest))"

definition TIME_CHECK :: "jsnum \<Rightarrow> microCluster \<Rightarrow> bool" where
  "TIME_CHECK t c \<longleftrightarrow> fgt (Math_abs (fsub t (latestTime c))) MAX_TIME_DIFF_MS"

text \<open>
  The inner \<open>for\<close> loop over \<open>microClusters\<close>, from index \<open>i\<close> on. It returns the index of
  the cluster where the duplicate check hit (the \<open>break\<close>), if any, with \<open>bestIdx\<close> and
  \<open>maxSim\<close>.
\<close>

fun scan :: "(string \<Rightarrow> string) \<Rightarrow> article \<Rightarrow> jsnum \<Rightarrow> microCluster list \<Rightarrow> nat \<Rightarrow> int \<times> jsnum
              \<Rightarrow> js_error + (nat option \<times> int \<times> jsnum)" where
  "scan lowtrim a t [] i (bestIdx, maxSim) = Inr (None, bestIdx, maxSim)"
| "scan lowtrim a t (c # cs) i (bestIdx, maxSim) =
     (if TIME_CHECK t c then scan lowtrim a t cs (Suc i) (bestIdx, maxSim)
      else (case duplicateMatch lowtrim a (articles c) of
              Inl e \<Rightarrow> Inl e
            | Inr True \<Rightarrow> Inr (Some i, bestIdx, maxSim)
            | Inr False \<Rightarrow>
                (let sim = cosineSimilarity (obj_embedding a) (centroid c)
                 in if fgt sim maxSim then scan lowtrim a t cs (Suc i) (int i, sim)
                    else scan lowtrim a t cs (Suc i) (bestIdx, maxSim))))"

text \<open>The body of the outer loop of \<open>clusterArticles\<close> for one article.\<close>

definition processArticle :: "(string \<Rightarrow> string) \<Rightarrow> jsnum \<Rightarrow> article \<Rightarrow> microCluster list
                               \<Rightarrow> js_error + microCluster list" where
  "processArticle lowtrim now a microClusters =
     (let vec = obj_embedding a; t = articleTime now a
      in case scan lowtrim a t microClusters 0 (- 1, Fin (- 1)) of
           Inl e \<Rightarrow> Inl e
         | Inr (Some i, bestIdx, maxSim) \<Rightarrow>
             Inr (microClusters[i := (microClusters ! i)\<lparr>articles := articles (microClusters ! i) @ [a]\<rparr>])
         | Inr (None, bestIdx, maxSim) \<Rightarrow>
             if fge maxSim CLUSTERING_THRESHOLD \<and> bestIdx \<noteq> - 1
             then (let c = microClusters ! nat bestIdx
                   in case weightedVectorAdd (centroid c) vec (rnd (8 / 10)) (rnd (2 / 10)) of
                        None \<Rightarrow> Inl TypeError
                      | Some w \<Rightarrow>
                          Inr (microClusters[nat bestIdx :=
                                 c\<lparr>articles := articles c @ [a],
                                   centroid := Some (normalizeVector w),
                                   latestTime := (if fgt t (latestTime c) then t else latestTime c)\<rparr>]))
             else Inr (microClusters @ [\<lparr>centroid = vec, articles = [a], latestTime = t\<rparr>]))"

text \<open>
  The outer loop over \<open>validArticles\<close>; \<open>clock i\<close> is what \<open>Date.now()\<close> returns in
  iteration \<open>i\<close>. An exception leaves the loop.
\<close>

fun clusterLoop :: "(string \<Rightarrow> string) \<Rightarrow> (nat \<Rightarrow> jsnum) \<Rightarrow> nat \<Rightarrow> article list \<Rightarrow> microCluster list
                     \<Rightarrow> js_error + microCluster list" where
  "clusterLoop lowtrim clock i [] microClusters = Inr microClusters"
| "clusterLoop lowtrim clock i (a # rest) microClusters =
     (case processArticle lowtrim (clock i) a microClusters of
        Inl e \<Rightarrow> Inl e
      | Inr cs \<Rightarrow> clusterLoop lowtrim clock (Suc i) rest cs)"

definition clusterArticles :: "(string \<Rightarrow> string) \<Rightarrow> (nat \<Rightarrow> jsnum) \<Rightarrow> article list
                                \<Rightarrow> js_error + microCluster list" where
  "clusterArticles lowtrim clock arts =
     clusterLoop lowtrim clock 0 (filter (\<lambda>a. obj_embedding a \<noteq> None) arts) []"

section \<open>The labeler\<close>

datatype json = JNull | JBool bool | JNum jsnum | JStr string | JArr "json list"
  | JObj "(string \<times> json) list"

text \<open>
  The outcome of \<open>await ai.models.generateContent(\<dots>)\<close>: the promise is rejected
  (a transport error such as HTTP 5xx), or it yields a response whose \<open>text\<close> may be
  missing.
\<close>

datatype gen_result = Rejected | Response "string option"

text \<open>
  The label that \<open>processCluster\<close> returns beside \<open>articles\<close>: the properties
  \<open>headline\<close>, \<open>summary\<close> and \<open>category\<close> of the returned object (\<open>None\<close> when the
  object has no such property).
\<close>

record label =
  l_headline :: "json option"
  l_summary :: "json option"
  l_category :: "json option"
  l_articles :: "article list"

text \<open>\<open>response.text || '{}'\<close>.\<close>

definition text_or_empty_object :: "string option \<Rightarrow> string" where
  "text_or_empty_object t = (case t of None \<Rightarrow> ''{}'' | Some s \<Rightarrow> if s = [] then ''{}'' else s)"

text \<open>
  The own property \<open>k\<close> of \<open>{...data}\<close>, for a key that is not an array index: only an
  object has one, and a repeated key of the JSON text keeps its last value.
\<close>

definition spread_prop :: "json \<Rightarrow> string \<Rightarrow> json option" where
  "spread_prop data k = (case data of JObj kvs \<Rightarrow> map_of (rev kvs) k | _ \<Rightarrow> None)"

text \<open>
  The fallback label of the \<open>catch\<close> block, from \<open>cluster.articles[0]\<close>; a NULL
  column is the value \<open>null\<close>.
\<close>

definition of_column :: "string option \<Rightarrow> json option" where
  "of_column c = (case c of None \<Rightarrow> Some JNull | Some s \<Rightarrow> Some (JStr s))"

definition fallback_label :: "article \<Rightarrow> article list \<Rightarrow> label" where
  "fallback_label first arts =
     \<lparr> l_headline = of_column (headline (row first)),
       l_summary = of_column (summary (row first)),
       l_category = Some (JStr ''General''),
       l_articles = arts \<rparr>"

text \<open>
  The \<open>try\<close> block of \<open>processCluster\<close> applied to the outcome of the request.
  \<open>JSON_parse\<close> is the runtime's \<open>JSON.parse\<close>, \<open>None\<close> when it throws.
\<close>

definition label_of :: "(string \<Rightarrow> json option) \<Rightarrow> gen_result \<Rightarrow> article \<Rightarrow> article list \<Rightarrow> label" where
  "label_of JSON_parse res first arts =
     (case res of
        Rejected \<Rightarrow> fallback_label first arts
      | Response t \<Rightarrow>
          (case JSON_parse (text_or_empty_object t) of
             None \<Rightarrow> fallback_label first arts
           | Some data \<Rightarrow>
               \<lparr> l_headline = spread_prop data ''headline'',
                 l_summary = spread_prop data ''summary'',
                 l_category = spread_prop data ''category'',
                 l_articles = arts \<rparr>))"

text \<open>
  \<open>processCluster\<close>. The generative model is the sequence \<open>gen\<close> of the outcomes of the
  successive requests; \<open>n\<close> counts the requests made so far. The prompt (keywords and
  sample headlines) only enters the request and is not modelled.
\<close>

definition processCluster :: "(string \<Rightarrow> json option) \<Rightarrow> (nat \<Rightarrow> gen_result) \<Rightarrow> nat \<Rightarrow> microCluster
                               \<Rightarrow> label option \<times> nat" where
  "processCluster JSON_parse gen n cluster =
     (case articles cluster of
        [] \<Rightarrow> (None, n)
      | first # _ \<Rightarrow> (Some (label_of JSON_parse (gen n) first (articles cluster)), Suc n))"

text \<open>
  \<open>generateLabels\<close>: the requests of a batch are issued in the order of the clusters and
  the batches follow each other, so the clusters consume the outcomes in order;
  \<open>results.filter(Boolean)\<close> drops the clusters without members.
\<close>

fun generateLabels :: "(string \<Rightarrow> json option) \<Rightarrow> (nat \<Rightarrow> gen_result) \<Rightarrow> nat \<Rightarrow> microCluster list
                        \<Rightarrow> label list \<times> nat" where
  "generateLabels JSON_parse gen n [] = ([], n)"
| "generateLabels JSON_parse gen n (c # cs) =
     (case processCluster JSON_parse gen n c of
        (r, n') \<Rightarrow>
          (case generateLabels JSON_parse gen n' cs of
             (rs, n'') \<Rightarrow> ((case r of None \<Rightarrow> rs | Some l \<Rightarrow> l # rs), n'')))"

section \<open>Cluster statistics\<close>

text \<open>\<open>s.includes(sub)\<close>.\<close>

fun startsWith :: "string \<Rightarrow> string \<Rightarrow> bool" where
  "startsWith _ [] = True"
| "startsWith [] (_ # _) = False"
| "startsWith (c # cs) (d # ds) = (c = d \<and> startsWith cs ds)"

fun includes_str :: "string \<Rightarrow> string \<Rightarrow> bool" where
  "includes_str [] sub = (sub = [])"
| "includes_str (c # cs) sub = (startsWith (c # cs) sub \<or> includes_str cs sub)"

text \<open>\<open>a.bias_rating && a.bias_rating.includes(w)\<close>: NULL and the empty string are falsy.\<close>

definition rating_includes :: "article \<Rightarrow> string \<Rightarrow> bool" where
  "rating_includes a w = (case bias_rating (row a) of None \<Rightarrow> False | Some s \<Rightarrow> s \<noteq> [] \<and> includes_str s w)"

text \<open>The \<open>forEach\<close> that counts into \<open>left\<close>, \<open>right\<close> and \<open>center\<close>.\<close>

fun count_bias :: "article list \<Rightarrow> nat \<times> nat \<times> nat \<Rightarrow> nat \<times> nat \<times> nat" where
  "count_bias [] acc = acc"
| "count_bias (a # rest) (left, right, center) =
     (if rating_includes a ''Left'' then count_bias rest (left + 1, right, center)
      else if rating_includes a ''Right'' then count_bias rest (left, right + 1, center)
      else count_bias rest (left, right, center + 1))"

text \<open>\<open>Math.round((k/total)*100)\<close>, on the counters \<open>k\<close> and \<open>total\<close>.\<close>

definition pct :: "nat \<Rightarrow> nat \<Rightarrow> jsnum" where
  "pct k tot = Math_round (fmul (fdiv (Fin (of_nat k)) (Fin (of_nat tot))) (Fin 100))"

record biasDistribution =
  left :: jsnum
  center :: jsnum
  right :: jsnum

record stats =
  totalSources :: nat
  biasDistribution :: biasDistribution
  blindspot :: string

definition computeStats :: "article list \<Rightarrow> stats" where
  "computeStats arts =
     (case count_bias arts (0, 0, 0) of
        (l, r, c) \<Rightarrow>
          (let tot = length arts; leftPct = pct l tot; rightPct = pct r tot;
               b0 = ''None'';
               b1 = (if flt rightPct (Fin 15) \<and> fgt leftPct (Fin 50) then ''Right'' else b0);
               b2 = (if flt leftPct (Fin 15) \<and> fgt rightPct (Fin 50) then ''Left'' else b1)
           in \<lparr> totalSources = tot,
                biasDistribution = \<lparr> left = leftPct,
                                       center = fsub (fsub (Fin 100) leftPct) rightPct,
                                       right = rightPct \<rparr>,
                blindspot = b2 \<rparr>))"

text \<open>\<open>c.articles.find(a => a.image_url)?.image_url\<close>.\<close>

definition bestImage :: "article list \<Rightarrow> string option" where
  "bestImage arts =
     (case filter (\<lambda>a. image_url (row a) \<noteq> None \<and> image_url (row a) \<noteq> Some []) arts of
        [] \<Rightarrow> None | a # _ \<Rightarrow> image_url (row a))"

section \<open>The coherence refiner\<close>

text \<open>
  A row of \<open>news_clusters\<close>. \<open>headline\<close> is NOT NULL; the label columns hold the value
  that was bound (\<open>None\<close> is NULL), and \<open>stats\<close> holds the serialised statistics.
\<close>

record cluster_row =
  c_id :: string
  c_headline :: json
  c_summary :: "json option"
  c_category :: "json option"
  main_image_url :: "string option"
  created_at :: string
  c_stats :: stats

record store =
  news_clusters :: "cluster_row list"
  news_articles :: "article_row list"

text \<open>
  \<open>INSERT INTO news_clusters \<dots>\<close> of the split. A missing or \<open>null\<close> headline is bound
  as NULL and violates NOT NULL; an id that is already stored violates the primary key.
\<close>

definition insert_cluster :: "store \<Rightarrow> string \<Rightarrow> string \<Rightarrow> label \<Rightarrow> sql_error + store" where
  "insert_cluster st newClusterId createdAt c =
     (case l_headline c of
        None \<Rightarrow> Inl SQLITE_CONSTRAINT
      | Some JNull \<Rightarrow> Inl SQLITE_CONSTRAINT
      | Some h \<Rightarrow>
          if newClusterId \<in> set (map c_id (news_clusters st)) then Inl SQLITE_CONSTRAINT
          else Inr (st\<lparr>news_clusters := news_clusters st @
                 [\<lparr> c_id = newClusterId, c_headline = h, c_summary = l_summary c,
                    c_category = l_category c, main_image_url = bestImage (l_articles c),
                    created_at = createdAt, c_stats = computeStats (l_articles c) \<rparr>]\<rparr>))"

text \<open>
  \<open>UPDATE news_articles SET cluster_id = ? WHERE id IN (\<dots>)\<close>; a NULL never matches.
\<close>

definition assign_cluster :: "string \<Rightarrow> string option list \<Rightarrow> article_row list \<Rightarrow> article_row list" where
  "assign_cluster newClusterId articleIds rows =
     map (\<lambda>r. if a_id r \<noteq> None \<and> a_id r \<in> set articleIds
                then r\<lparr>cluster_id := Some newClusterId\<rparr> else r) rows"

text \<open>\<open>c.articles.map(a => a.id)\<close>.\<close>

definition articleIds :: "label \<Rightarrow> string option list" where
  "articleIds c = map (\<lambda>a. a_id (row a)) (l_articles c)"

text \<open>
  The loop \<open>for (const c of labeledSubClusters)\<close> inside the transaction. \<open>fresh i\<close>
  is the pair of \<open>newClusterId\<close> and \<open>new Date().toISOString()\<close> of iteration \<open>i\<close>. The
  first failing statement leaves the loop with its error.
\<close>

fun split_inserts :: "(nat \<Rightarrow> string \<times> string) \<Rightarrow> nat \<Rightarrow> label list \<Rightarrow> store \<Rightarrow> sql_error + store" where
  "split_inserts fresh i [] st = Inr st"
| "split_inserts fresh i (c # cs) st =
     (case insert_cluster st (fst (fresh i)) (snd (fresh i)) c of
        Inl e \<Rightarrow> Inl e
      | Inr st' \<Rightarrow>
          split_inserts fresh (Suc i) cs
            (st'\<lparr>news_articles :=
                  assign_cluster (fst (fresh i)) (articleIds c) (news_articles st')\<rparr>))"

text \<open>
  The ``safe transactional swap'': BEGIN, \<open>DELETE FROM news_clusters WHERE id = ?\<close>, the
  loop, COMMIT; any error is answered by ROLLBACK. Foreign keys are not enforced (the
  connection never enables them), so the DELETE always succeeds.
\<close>

definition splitCluster :: "(nat \<Rightarrow> string \<times> string) \<Rightarrow> string \<Rightarrow> label list \<Rightarrow> store \<Rightarrow> store" where
  "splitCluster fresh oldId labeledSubClusters st =
     (case split_inserts fresh 0 labeledSubClusters
             (st\<lparr>news_clusters := filter (\<lambda>c. c_id c \<noteq> oldId) (news_clusters st)\<rparr>) of
        Inl e \<Rightarrow> st
      | Inr st' \<Rightarrow> st')"

definition COHERENCE_THRESHOLD :: jsnum where
  "COHERENCE_THRESHOLD = rnd (60 / 100)"

text \<open>
  \<open>articlesRaw.map(\<dots>).filter(a => a && a.embedding && a.embedding.length > 0)\<close>:
  a row whose embedding is NULL, does not parse or is empty is dropped.
\<close>

definition member_object :: "article_row \<Rightarrow> article option" where
  "member_object r =
     (case embedding r of
        EmbJson v \<Rightarrow> if v = [] then None else Some (obj r v)
      | _ \<Rightarrow> None)"

text \<open>\<open>new Array(articles[0].embedding.length).fill(0)\<close>.\<close>

definition zero_centroid :: "article list \<Rightarrow> vec option" where
  "zero_centroid arts =
     (case arts of [] \<Rightarrow> None
      | a # _ \<Rightarrow> (case obj_embedding a of None \<Rightarrow> None | Some v \<Rightarrow> Some (replicate (length v) (Fin 0))))"

text \<open>\<open>SELECT * FROM news_articles WHERE cluster_id = ?\<close>.\<close>

definition loadClusterArticles :: "string \<Rightarrow> store \<Rightarrow> article_row list" where
  "loadClusterArticles cid st = filter (\<lambda>r. cluster_id r = Some cid) (news_articles st)"

text \<open>
  The elementwise sum of the embeddings, accumulated with \<open>weightedVectorAdd(centroid,
  a.embedding, 1, 1)\<close>, and \<open>avgSim\<close>, the mean cosine similarity to the centroid.
\<close>

definition summed_embeddings :: "article list \<Rightarrow> vec option" where
  "summed_embeddings arts =
     foldl (\<lambda>c a. weightedVectorAdd c (obj_embedding a) (Fin 1) (Fin 1)) (zero_centroid arts) arts"

definition average_similarity :: "article list \<Rightarrow> vec \<Rightarrow> jsnum" where
  "average_similarity arts c =
     fdiv (foldl (\<lambda>totalSim a. fadd totalSim (cosineSimilarity (obj_embedding a) (Some c)))
                 (Fin 0) arts)
          (Fin (of_nat (length arts)))"

text \<open>
  The body of the loop of \<open>refineClusters\<close> for one recent cluster \<open>cluster\<close>, read
  earlier, on the store \<open>st\<close>. \<open>Inl\<close> is an exception that reaches the outer \<open>catch\<close>.
\<close>

definition refine_cluster ::
  "(string \<Rightarrow> string) \<Rightarrow> (nat \<Rightarrow> jsnum) \<Rightarrow> (string \<Rightarrow> json option) \<Rightarrow> (nat \<Rightarrow> gen_result)
     \<Rightarrow> (nat \<Rightarrow> string \<times> string) \<Rightarrow> cluster_row \<Rightarrow> store \<Rightarrow> js_error + store" where
  "refine_cluster lowtrim clock JSON_parse gen fresh cluster st =
     (let articlesRaw = loadClusterArticles (c_id cluster) st
      in if length articlesRaw < 4 then Inr st
         else
          (let arts = List.map_filter member_object articlesRaw
           in if length arts < 4 then Inr st
              else
               (case summed_embeddings arts of
                  None \<Rightarrow> Inl TypeError
                | Some s \<Rightarrow>
                   (let centroid = normalizeVector s;
                        avgSim = average_similarity arts centroid
                    in if flt avgSim COHERENCE_THRESHOLD
                       then (case clusterArticles lowtrim clock arts of
                               Inl e \<Rightarrow> Inl e
                             | Inr newMicroClusters \<Rightarrow>
                                 if 1 < length newMicroClusters
                                 then Inr (splitCluster fresh (c_id cluster)
                                             (fst (generateLabels JSON_parse gen 0 newMicroClusters)) st)
                                 else Inr st)
                       else Inr st))))"

section \<open>Example data\<close>

text \<open>A stored row and an incoming article with the same id.\<close>

definition stored_example :: article_row where
  "stored_example =
     \<lparr> a_id = Some ''a1'', source_id = Some ''s1'', source_name = Some ''Source One'',
       bias_rating = Some ''Left'', factuality = Some ''High'', headline = Some ''Old headline'',
       url = Some ''http://x/1'', pub_date = Some ''2024-01-01T00:00:00.000Z'',
       fetched_at = Some ''2024-01-01T01:00:00.000Z'', summary = Some ''S'',
       image_url = Some ''http://x/1.png'', cluster_id = Some ''cluster-1'',
       embedding = EmbJson [Fin 1, Fin 0], entities = Some [''Delhi''] \<rparr>"

definition incoming_example :: incoming_article where
  "incoming_example =
     \<lparr> r_id = Some ''a1'', sourceId = Some ''s2'', sourceName = None,
       biasRating = Some ''Right'', r_factuality = None, r_headline = Some ''New headline'',
       r_url = Some ''http://x/other'', r_pubDate = None,
       fetchedAt = Some ''2024-01-02T01:00:00.000Z'', r_summary = None,
       imageUrl = None, clusterId = None, r_embedding = None, r_entities = None \<rparr>"

text \<open>A row with the given id, headline, bias rating, embedding and cluster.\<close>

definition example_row :: "string \<Rightarrow> string \<Rightarrow> string \<Rightarrow> embedding_col \<Rightarrow> string option \<Rightarrow> article_row" where
  "example_row i h b e c =
     \<lparr> a_id = Some i, source_id = None, source_name = None, bias_rating = Some b,
       factuality = None, headline = Some h, url = None, pub_date = None, fetched_at = None,
       summary = None, image_url = None, cluster_id = c, embedding = e, entities = None \<rparr>"

text \<open>
  Article A1 published at time 0, alone in its cluster, and A3 with the same headline 49
  hours later.
\<close>

definition art_A1 :: article where
  "art_A1 = \<lparr> row = example_row ''A1'' ''Parliament passes bill X'' ''Left'' EmbNull None,
              pubDate = Some (Fin 0), obj_embedding = Some [Fin 1, Fin 0] \<rparr>"

definition art_A3 :: article where
  "art_A3 = \<lparr> row = example_row ''A3'' ''Parliament passes bill X'' ''Right'' EmbNull None,
              pubDate = Some (Fin 176400000), obj_embedding = Some [Fin 1, Fin 0] \<rparr>"

definition cluster_of_A1 :: microCluster where
  "cluster_of_A1 = \<lparr> centroid = Some [Fin 1, Fin 0], articles = [art_A1], latestTime = Fin 0 \<rparr>"

text \<open>
  What \<open>JSON.parse\<close> does on three texts: the empty object, a well-formed label, and
  text that is no JSON (every other text is treated as such here).
\<close>

definition good_label_text :: string where
  \<open>good_label_text = ''{"headline":"Bill X passes","summary":"Parliament passed bill X.","category":"Politics"}''\<close>

definition parse_example :: "string \<Rightarrow> json option" where
  "parse_example s =
     (if s = ''{}'' then Some (JObj [])
      else if s = good_label_text
      then Some (JObj [(''headline'', JStr ''Bill X passes''),
                       (''summary'', JStr ''Parliament passed bill X.''),
                       (''category'', JStr ''Politics'')])
      else None)"

text \<open>A generative model whose first request is rejected and whose later requests succeed.\<close>

definition gen_flaky :: "nat \<Rightarrow> gen_result" where
  "gen_flaky n = (if n = 0 then Rejected else Response (Some good_label_text))"

text \<open>
  A table scanned in the order: an article already clustered, an unclustered article of
  3 January, an unclustered article of 2 January; the cutoff is 1 January.
\<close>

definition row_clustered :: article_row where
  "row_clustered = (example_row ''r0'' ''h0'' ''Left'' EmbNull (Some ''cluster-1''))
                     \<lparr>pub_date := Some ''2024-01-03T12:00:00.000Z''\<rparr>"

definition row_jan3 :: article_row where
  "row_jan3 = (example_row ''r1'' ''h1'' ''Left'' EmbNull None)
                \<lparr>pub_date := Some ''2024-01-03T00:00:00.000Z''\<rparr>"

definition row_jan2 :: article_row where
  "row_jan2 = (example_row ''r2'' ''h2'' ''Right'' EmbNull None)
                \<lparr>pub_date := Some ''2024-01-02T00:00:00.000Z''\<rparr>"

definition cutoff_jan1 :: string where
  "cutoff_jan1 = ''2024-01-01T00:00:00.000Z''"

text \<open>
  A cluster X with five member rows: four with the unit embeddings \<open>[1]\<close>, \<open>[-1]\<close>,
  \<open>[1]\<close>, \<open>[-1]\<close> and one whose embedding is NULL. The ids and timestamps that the split
  draws are \<open>fresh_example\<close>.
\<close>

definition member_row :: "string \<Rightarrow> string \<Rightarrow> embedding_col \<Rightarrow> article_row" where
  "member_row i h e = example_row i h ''Center'' e (Some ''X'')"

definition m1 :: article_row where "m1 = member_row ''m1'' ''h1'' (EmbJson [Fin 1])"
definition m2 :: article_row where "m2 = member_row ''m2'' ''h2'' (EmbJson [Fin (- 1)])"
definition m3 :: article_row where "m3 = member_row ''m3'' ''h3'' (EmbJson [Fin 1])"
definition m4 :: article_row where "m4 = member_row ''m4'' ''h4'' (EmbJson [Fin (- 1)])"
definition m5 :: article_row where "m5 = member_row ''m5'' ''h5'' EmbNull"

definition cluster_X :: cluster_row where
  "cluster_X = \<lparr> c_id = ''X'', c_headline = JStr ''Mixed story'', c_summary = None,
                 c_category = Some (JStr ''General''), main_image_url = None,
                 created_at = ''2024-01-03T00:00:00.000Z'',
                 c_stats = \<lparr> totalSources = 5,
                             biasDistribution = \<lparr> left = Fin 0, center = Fin 100, right = Fin 0 \<rparr>,
                             blindspot = ''None'' \<rparr> \<rparr>"

definition store_X :: store where
  "store_X = \<lparr> news_clusters = [cluster_X], news_articles = [m1, m2, m3, m4, m5] \<rparr>"


definition fresh_example :: "nat \<Rightarrow> string \<times> string" where
  "fresh_example i = (if i = 0 then ''cluster-split-a'' else ''cluster-split-b'',
                      ''2024-01-04T00:00:00.000Z'')"

text \<open>
  Two objects spread from rows with the same headline and embedding, and a clock that
  advances by one millisecond from one iteration to the next.
\<close>

definition dup_1 :: article where
  "dup_1 = obj (example_row ''d1'' ''Parliament passes bill X'' ''Left'' (EmbJson [Fin 1, Fin 0]) None)
               [Fin 1, Fin 0]"

definition dup_2 :: article where
  "dup_2 = obj (example_row ''d2'' ''Parliament passes bill X'' ''Right'' (EmbJson [Fin 1, Fin 0]) None)
               [Fin 1, Fin 0]"

definition clock_example :: "nat \<Rightarrow> jsnum" where
  "clock_example i = Fin (1700000000000 + of_nat i)"

text \<open>
  Two unclustered rows with the same headline whose \<open>pub_date\<close> columns are 49 hours
  apart, as the objects that the pipeline builds from them, and a clock that reads
  2024-01-03T02:00:00.000Z (1704247200000 ms) and advances by one millisecond from one
  iteration to the next.
\<close>

definition obj_A1 :: article where
  "obj_A1 = obj ((example_row ''A1'' ''Parliament passes bill X'' ''Left'' (EmbJson [Fin 1, Fin 0]) None)
                   \<lparr>pub_date := Some ''2024-01-01T00:00:00.000Z''\<rparr>)
                [Fin 1, Fin 0]"

definition obj_A3 :: article where
  "obj_A3 = obj ((example_row ''A3'' ''Parliament passes bill X'' ''Right'' (EmbJson [Fin 1, Fin 0]) None)
                   \<lparr>pub_date := Some ''2024-01-03T01:00:00.000Z''\<rparr>)
                [Fin 1, Fin 0]"

definition clock_jan3 :: "nat \<Rightarrow> jsnum" where
  "clock_jan3 i = Fin (1704247200000 + of_nat i)"

text \<open>The two sub-clusters of the members with an embedding, with their fallback labels.\<close>

definition sub_labels :: "label list" where
  "sub_labels = [fallback_label (obj m1 [Fin 1]) [obj m1 [Fin 1], obj m3 [Fin 1]],
                 fallback_label (obj m2 [Fin (- 1)]) [obj m2 [Fin (- 1)], obj m4 [Fin (- 1)]]]"


text \<open>
  Members by bias rating, the cluster of ten members of the blindspot scenario (7 Left,
  1 Center, 2 Center Right), and a cluster of 40 members of which 23 are rated Left.
\<close>

definition rated :: "string \<Rightarrow> article" where
  "rated b = \<lparr> row = example_row ''a'' ''h'' b EmbNull None, pubDate = None,
               obj_embedding = Some [Fin 1] \<rparr>"

definition ten_members :: "article list" where
  "ten_members = [rated ''Left'', rated ''Left'', rated ''Left'', rated ''Left'', rated ''Left'',
                  rated ''Left'', rated ''Left'', rated ''Center'', rated ''Center Right'',
                  rated ''Center Right'']"

definition forty_members :: "article list" where
  "forty_members = replicate 23 (rated ''Left'') @ replicate 17 (rated ''Center'')"

section \<open>Properties of the rounding\<close>

lemma bitlen_bounds: "0 < a \<Longrightarrow> a < 2 ^ bitlen a \<and> 2 ^ bitlen a \<le> 2 * a"
proof (induction a rule: bitlen.induct)
  case (1 a)
  show ?case
  proof (cases "a = 1")
    case True
    then show ?thesis by (simp add: bitlen.simps)
  next
    case False
    with "1.prems" have h: "0 < a div 2" by simp
    from "1.prems" have "\<not> a \<le> 0" by simp
    from "1.IH"[OF this h] have ih: "a div 2 < 2 ^ bitlen (a div 2)" "2 ^ bitlen (a div 2) \<le> 2 * (a div 2)"
      by simp_all
    have b: "bitlen a = Suc (bitlen (a div 2))" using "1.prems" by (simp add: bitlen.simps)
    have "a < 2 * (a div 2) + 2" by simp
    moreover have "2 * (a div 2) \<le> a" by simp
    ultimately show ?thesis using ih unfolding b by simp
  qed
qed

lemma bitlen_pos: "0 < a \<Longrightarrow> 0 < bitlen a"
  by (simp add: bitlen.simps)

lemma expo_bounds:
  assumes "0 < q"
  shows "2 powi (expo q) \<le> q \<and> q < 2 powi (expo q + 1)"
proof (cases "1 \<le> q")
  case True
  let ?a = "\<lfloor>q\<rfloor>"
  have a: "0 < ?a" using True by simp
  obtain n where n: "bitlen ?a = Suc n" using bitlen_pos[OF a] by (cases "bitlen ?a") auto
  from bitlen_bounds[OF a] have b: "?a < 2 ^ Suc n" "2 ^ Suc n \<le> 2 * ?a" unfolding n by simp_all
  have e: "expo q = int n" using True by (simp add: expo_def n)
  have "(2::int) ^ n \<le> ?a" using b(2) by simp
  then have "rat_of_int (2 ^ n) \<le> of_int ?a" by (simp only: of_int_le_iff)
  then have l: "(2::rat) ^ n \<le> q" by (simp add: le_floor_iff)
  have "?a + 1 \<le> 2 ^ Suc n" using b(1) by simp
  then have "rat_of_int (?a + 1) \<le> rat_of_int (2 ^ Suc n)" by (simp only: of_int_le_iff)
  moreover have "q < of_int (?a + 1)" by linarith
  ultimately have u: "q < 2 ^ Suc n" by simp
  have "2 powi (int n) = (2::rat) ^ n" by simp
  moreover have "2 powi (int n + 1) = (2::rat) ^ Suc n" by (simp add: power_int_add)
  ultimately show ?thesis using l u e by simp
next
  case False
  let ?a = "\<lfloor>1 / q\<rfloor>"
  have q1: "1 < 1 / q" using False assms by simp
  then have a: "0 < ?a" by simp
  obtain n where n: "bitlen ?a = Suc n" using bitlen_pos[OF a] by (cases "bitlen ?a") auto
  from bitlen_bounds[OF a] have b: "?a < 2 ^ Suc n" "2 ^ Suc n \<le> 2 * ?a" unfolding n by simp_all
  have "(2::int) ^ n \<le> ?a" using b(2) by simp
  then have "rat_of_int (2 ^ n) \<le> of_int ?a" by (simp only: of_int_le_iff)
  then have l: "(2::rat) ^ n \<le> 1 / q" by (simp add: le_floor_iff)
  have "?a + 1 \<le> 2 ^ Suc n" using b(1) by simp
  then have "rat_of_int (?a + 1) \<le> rat_of_int (2 ^ Suc n)" by (simp only: of_int_le_iff)
  moreover have "1 / q < of_int (?a + 1)" by linarith
  ultimately have u: "1 / q < 2 ^ Suc n" by simp
  have l': "q \<le> 1 / 2 ^ n" using l assms by (simp add: field_simps)
  have u': "1 / 2 ^ Suc n < q" using u assms by (simp add: field_simps)
  have p1: "2 powi (- int n) = 1 / (2::rat) ^ n" by (simp add: power_int_minus field_simps)
  have p2: "2 powi (- int n - 1) = 1 / (2::rat) ^ Suc n"
    by (simp add: power_int_diff power_int_minus field_simps)
  have ex: "expo q = (if q = 2 powi (- int n) then - int n else - int n - 1)"
    using False by (simp add: expo_def n Let_def)
  show ?thesis
  proof (cases "q = 2 powi (- int n)")
    case True
    then have e: "expo q = - int n" using ex by simp
    have "2 powi (- int n + 1) = 2 * (2 powi (- int n) :: rat)"
      by (subst power_int_add) simp_all
    then show ?thesis using True e assms by simp
  next
    case F2: False
    then have e: "expo q = - int n - 1" using ex by simp
    have "q < 2 powi (- int n)" using l' F2 p1 by simp
    then show ?thesis using e u' p2 by simp
  qed
qed


lemma rhe_of_int: "rhe (of_int k) = k"
  by (simp add: rhe_def)

lemma rhe_err: "\<bar>of_int (rhe x) - x\<bar> \<le> 1 / 2"
proof -
  have "of_int \<lfloor>x\<rfloor> \<le> x" "x < of_int \<lfloor>x\<rfloor> + 1" by linarith+
  then show ?thesis by (auto simp: rhe_def Let_def)
qed

lemma expo_ge:
  assumes "0 < q" "2 powi n \<le> q"
  shows "n \<le> expo q"
proof (rule ccontr)
  assume "\<not> n \<le> expo q"
  then have "expo q + 1 \<le> n" by simp
  then have "(2::rat) powi (expo q + 1) \<le> 2 powi n" by (intro power_int_increasing) simp_all
  with expo_bounds[OF assms(1)] assms(2) show False by linarith
qed

lemma expo_le:
  assumes "0 < q" "q < 2 powi n"
  shows "expo q < n"
proof (rule ccontr)
  assume "\<not> expo q < n"
  then have "n \<le> expo q" by simp
  then have "(2::rat) powi n \<le> 2 powi (expo q)" by (intro power_int_increasing) simp_all
  with expo_bounds[OF assms(1)] assms(2) show False by linarith
qed

lemma rnd_int:
  assumes "\<bar>k\<bar> < 2 ^ 53"
  shows "rnd (of_int k) = Fin (of_int k)"
proof (cases "k = 0")
  case True
  then show ?thesis by (simp add: rnd_def)
next
  case False
  let ?q = "rat_of_int k"
  let ?e = "expo \<bar>?q\<bar>"
  have qpos: "0 < \<bar>?q\<bar>" using False by simp
  have "1 \<le> \<bar>k\<bar>" using False by simp
  then have "rat_of_int 1 \<le> rat_of_int \<bar>k\<bar>" by (simp only: of_int_le_iff)
  then have "2 powi 0 \<le> \<bar>?q\<bar>" by simp
  from expo_ge[OF qpos this] have e0: "0 \<le> ?e" .
  have "rat_of_int \<bar>k\<bar> < rat_of_int (2 ^ 53)" using assms by (simp only: of_int_less_iff)
  then have q53: "\<bar>?q\<bar> < 2 powi 53" by simp
  from expo_le[OF qpos this] have e53: "?e < 53" .
  define j where "j = nat (52 - ?e)"
  have m: "max ?e (- 1022) = ?e" using e0 by simp
  have "2 powi (?e - 52) = (2::rat) powi (- int j)" using e53 by (simp add: j_def)
  also have "\<dots> = 1 / 2 ^ j" by (simp add: power_int_minus field_simps)
  finally have ulp: "2 powi (?e - 52) = 1 / (2::rat) ^ j" .
  have "?q / (1 / 2 ^ j) = rat_of_int (k * 2 ^ j)" by simp
  then have r: "rhe (?q / (1 / 2 ^ j)) = k * 2 ^ j" by (simp only: rhe_of_int)
  have bk: "rat_of_int (k * 2 ^ j) * (1 / 2 ^ j) = ?q" by simp
  have "\<bar>?q\<bar> < 2 powi 1024"
    using q53 power_int_strict_increasing[of 53 1024 "2::rat"] by linarith
  then have nov: "\<not> 2 powi 1024 \<le> ?q" "\<not> ?q \<le> - (2 powi 1024)" by linarith+
  show ?thesis
    unfolding rnd_def Let_def m ulp r bk using False nov by simp
qed

lemma rnd_error:
  assumes lo: "2 powi (- 1022) \<le> \<bar>q\<bar>" and hi: "\<bar>q\<bar> \<le> 2 ^ 1022"
  shows "\<exists>r. rnd q = Fin r \<and> \<bar>r - q\<bar> * 2 ^ 53 \<le> \<bar>q\<bar>"
proof -
  let ?e = "expo \<bar>q\<bar>"
  have "(0::rat) < 2 powi (- 1022)" by simp
  with lo have qpos: "0 < \<bar>q\<bar>" by linarith
  then have q0: "q \<noteq> 0" by simp
  from expo_ge[OF qpos lo] have m: "max ?e (- 1022) = ?e" by simp
  define ulp :: rat where "ulp = 2 powi (?e - 52)"
  define r where "r = of_int (rhe (q / ulp)) * ulp"
  have upos: "0 < ulp" by (simp add: ulp_def)
  have "r - q = (of_int (rhe (q / ulp)) - q / ulp) * ulp" using upos by (simp add: r_def field_simps)
  then have "\<bar>r - q\<bar> = \<bar>of_int (rhe (q / ulp)) - q / ulp\<bar> * ulp" using upos by (simp add: abs_mult)
  also have "\<dots> \<le> 1 / 2 * ulp" using rhe_err[of "q / ulp"] upos by (intro mult_right_mono) simp_all
  finally have err: "\<bar>r - q\<bar> \<le> ulp / 2" by simp
  have "ulp * 2 ^ 52 = 2 powi (?e - 52) * 2 powi 52" by (simp add: ulp_def)
  also have "\<dots> = 2 powi ?e" by (subst power_int_add[symmetric]) simp_all
  finally have u52: "ulp * 2 ^ 52 = 2 powi ?e" .
  have "ulp * 2 ^ 52 \<le> \<bar>q\<bar>" using expo_bounds[OF qpos] u52 by simp
  then have uq: "ulp / 2 * 2 ^ 53 \<le> \<bar>q\<bar>" by simp
  have e1: "\<bar>r - q\<bar> * 2 ^ 53 \<le> \<bar>q\<bar>"
  proof -
    have "\<bar>r - q\<bar> * 2 ^ 53 \<le> ulp / 2 * 2 ^ 53" using err by (intro mult_right_mono) simp_all
    with uq show ?thesis by linarith
  qed
  have "\<bar>r - q\<bar> \<le> \<bar>q\<bar>"
  proof -
    have "\<bar>r - q\<bar> * 1 \<le> \<bar>r - q\<bar> * 2 ^ 53" by (rule mult_left_mono) simp_all
    then have "\<bar>r - q\<bar> \<le> \<bar>r - q\<bar> * 2 ^ 53" by (simp only: mult_1_right)
    then show ?thesis using e1 by (rule order_trans)
  qed
  then have "\<bar>r\<bar> \<le> 2 * \<bar>q\<bar>" by linarith
  also have "\<dots> \<le> 2 * 2 ^ 1022" using hi by simp
  also have "\<dots> < (2::rat) ^ 1024" by simp
  finally have "\<bar>r\<bar> < 2 powi 1024" by simp
  then have nov: "\<not> 2 powi 1024 \<le> r" "\<not> r \<le> - (2 powi 1024)" by linarith+
  have "rnd q = Fin r"
    unfolding rnd_def Let_def m using q0 nov by (simp add: r_def ulp_def)
  with e1 show ?thesis by blast
qed



lemma rnd_num:
  assumes "q = of_int k" "\<bar>k\<bar> < 2 ^ 53"
  shows "rnd q = Fin q"
  using rnd_int[OF assms(2)] assms(1) by simp


lemma rhe_unique:
  assumes "\<bar>x - of_int m\<bar> < 1 / 2"
  shows "rhe x = m"
proof -
  have "\<bar>rat_of_int (rhe x) - of_int m\<bar> \<le> \<bar>of_int (rhe x) - x\<bar> + \<bar>x - of_int m\<bar>" by simp
  also have "\<dots> < 1 / 2 + 1 / 2" using rhe_err[of x] assms by linarith
  finally have "\<bar>rat_of_int (rhe x - m)\<bar> < rat_of_int 1" by simp
  then have "\<bar>rhe x - m\<bar> < 1" by (simp only: of_int_abs[symmetric] of_int_less_iff)
  then show ?thesis by simp
qed

lemma expo_unique:
  assumes "0 < q" "2 powi e \<le> q" "q < 2 powi (e + 1)"
  shows "expo q = e"
  using expo_ge[OF assms(1,2)] expo_le[OF assms(1,3)] by simp

lemma rnd_char:
  assumes "0 < q" "2 powi e \<le> q" "q < 2 powi (e + 1)" "- 1022 \<le> e"
    and "\<bar>q / 2 powi (e - 52) - rat_of_int m\<bar> < 1 / 2"
    and "\<bar>rat_of_int m * 2 powi (e - 52)\<bar> < 2 powi 1024"
  shows "rnd q = Fin (of_int m * 2 powi (e - 52))"
proof -
  have e: "expo \<bar>q\<bar> = e" using expo_unique[OF assms(1-3)] assms(1) by simp
  have m: "max e (- 1022) = e" using assms(4) by simp
  have r: "rhe (q / 2 powi (e - 52)) = m" using assms(5) by (rule rhe_unique)
  have q0: "q \<noteq> 0" using assms(1) by simp
  have nov: "\<not> 2 powi 1024 \<le> rat_of_int m * 2 powi (e - 52)"
    "\<not> rat_of_int m * 2 powi (e - 52) \<le> - (2 powi 1024)"
    using assms(6) by linarith+
  show ?thesis unfolding rnd_def Let_def e m r using q0 nov by (simp only: if_False)
qed

section \<open>Percentages\<close>

lemma pct_nearest:
  assumes kN: "k \<le> N" and Npos: "0 < N" and Nlt: "N < 2 ^ 32"
  shows "\<exists>p. pct k N = Fin (of_int p) \<and> 2 * int N * p \<le> 200 * int k + int N
              \<and> 200 * int k - int N \<le> 2 * int N * p"
proof (cases "k = 0")
  case True
  have "\<lfloor>1 / 2 :: rat\<rfloor> = 0" by (simp add: floor_eq_iff)
  then have "pct 0 N = Fin (of_int 0)" using Npos by (simp add: pct_def rnd_def)
  then show ?thesis using True by (intro exI[of _ 0]) simp
next
  case False
  define n :: rat where "n = of_nat N"
  define c :: rat where "c = of_nat k"
  define q where "q = c / n"
  have n1: "1 \<le> n" using Npos by (simp add: n_def)
  have "rat_of_nat N < rat_of_nat (2 ^ 32)" using Nlt by (simp only: of_nat_less_iff)
  then have n32: "n < 2 ^ 32" by (simp add: n_def)
  have c1: "1 \<le> c" using False by (simp add: c_def)
  have cn: "c \<le> n" using kN by (simp add: c_def n_def)
  have qpos: "0 < q" using c1 n1 by (simp add: q_def)
  have q1: "q \<le> 1" using cn n1 by (simp add: q_def)
  have "1 / n \<le> q" using c1 n1 by (simp add: q_def field_simps)
  moreover have "1 / 2 ^ 32 < 1 / n" using n32 n1 by (simp add: field_simps)
  ultimately have qlo: "1 / 2 ^ 32 < q" by linarith
  have tiny: "2 powi (- 1022) \<le> (1 / 2 ^ 34 :: rat)" by (simp add: power_int_minus)
  have "2 powi (- 1022) \<le> \<bar>q\<bar>" using tiny qlo qpos by simp
  moreover have "\<bar>q\<bar> \<le> 2 ^ 1022" using q1 qpos by simp
  ultimately obtain y where y: "rnd q = Fin y" "\<bar>y - q\<bar> * 2 ^ 53 \<le> \<bar>q\<bar>"
    using rnd_error by blast
  have yq: "\<bar>y - q\<bar> * 2 ^ 53 \<le> q" using y(2) qpos by simp
  then have "\<bar>y - q\<bar> * 2 \<le> q" using qpos by simp
  then have "(y - q) * 2 \<le> q" "(q - y) * 2 \<le> q"
    using abs_ge_self[of "y - q"] abs_ge_minus_self[of "y - q"] by simp_all
  then have ylo: "q / 2 \<le> y" and yhi: "y \<le> 2 * q" using qpos by simp_all
  have ypos: "0 < y" using ylo qpos by linarith
  have "2 powi (- 1022) \<le> \<bar>y * 100\<bar>" using tiny qlo ylo ypos by simp
  moreover have "\<bar>y * 100\<bar> \<le> 2 ^ 1022" using yhi q1 ypos by simp
  ultimately obtain x where x: "rnd (y * 100) = Fin x" "\<bar>x - y * 100\<bar> * 2 ^ 53 \<le> \<bar>y * 100\<bar>"
    using rnd_error by blast
  have xy: "\<bar>x - y * 100\<bar> * 2 ^ 53 \<le> 200" using x(2) ypos yhi q1 by simp
  have "y * 100 - q * 100 = (y - q) * 100" by (simp add: algebra_simps)
  then have "\<bar>y * 100 - q * 100\<bar> = \<bar>y - q\<bar> * 100" by (simp only: abs_mult)
  then have "\<bar>y * 100 - q * 100\<bar> * 2 ^ 53 = 100 * (\<bar>y - q\<bar> * 2 ^ 53)" by simp
  then have yq100: "\<bar>y * 100 - q * 100\<bar> * 2 ^ 53 \<le> 100" using yq q1 by simp
  have "\<bar>x - q * 100\<bar> \<le> \<bar>x - y * 100\<bar> + \<bar>y * 100 - q * 100\<bar>" by simp
  then have "\<bar>x - q * 100\<bar> * 2 ^ 53 \<le> \<bar>x - y * 100\<bar> * 2 ^ 53 + \<bar>y * 100 - q * 100\<bar> * 2 ^ 53"
    by (simp add: algebra_simps)
  with xy yq100 have err: "\<bar>x - q * 100\<bar> * 2 ^ 53 \<le> 300" by linarith
  define p where "p = \<lfloor>x + 1 / 2\<rfloor>"
  have nz: "n \<noteq> 0" using n1 by simp
  have val: "pct k N = Fin (of_int p)"
    using nz y(1) x(1) by (simp add: pct_def p_def q_def c_def n_def)
  have pl: "of_int p \<le> x + 1 / 2" and pu: "x + 1 / 2 < of_int p + 1" unfolding p_def by linarith+
  have e2: "\<bar>x - q * 100\<bar> * (2 * n) < 1"
  proof -
    have "\<bar>x - q * 100\<bar> * 2 ^ 53 * (2 * n) \<le> 300 * (2 * n)" using err n1 by (intro mult_right_mono) simp_all
    also have "\<dots> < 300 * (2 * 2 ^ 32)" using n32 by simp
    also have "\<dots> < (2::rat) ^ 53" by simp
    finally have "\<bar>x - q * 100\<bar> * (2 * n) * 2 ^ 53 < 1 * 2 ^ 53" by (simp add: algebra_simps)
    then show ?thesis by (simp only: mult_less_cancel_right_pos zero_less_power zero_less_numeral)
  qed
  have qn: "q * n = c" using nz by (simp add: q_def)
  have "\<bar>2 * n\<bar> = 2 * n" using n1 by simp
  then have "\<bar>(x - q * 100) * (2 * n)\<bar> < 1" using e2 by (simp only: abs_mult)
  then have d1: "(x - q * 100) * (2 * n) < 1" and d2: "- 1 < (x - q * 100) * (2 * n)"
    by (simp_all only: abs_less_iff minus_less_iff)
  have x2n: "x * (2 * n) = (x - q * 100) * (2 * n) + 200 * c" using qn by (simp add: algebra_simps)
  have "of_int p * (2 * n) \<le> (x + 1 / 2) * (2 * n)" using pl n1 by (intro mult_right_mono) simp_all
  also have "\<dots> = x * (2 * n) + n" by (simp add: algebra_simps)
  also have "\<dots> < 200 * c + n + 1" using x2n d1 by linarith
  finally have "rat_of_int (2 * int N * p) < rat_of_int (200 * int k + int N + 1)"
    by (simp add: n_def c_def algebra_simps)
  then have r1: "2 * int N * p < 200 * int k + int N + 1" by (simp only: of_int_less_iff)
  have "200 * c - n - 1 < x * (2 * n) - n" using x2n d2 by linarith
  also have "\<dots> = (x - 1 / 2) * (2 * n)" by (simp add: algebra_simps)
  also have "\<dots> < of_int p * (2 * n)" using pu n1 by (intro mult_strict_right_mono) simp_all
  finally have "rat_of_int (200 * int k - int N - 1) < rat_of_int (2 * int N * p)"
    by (simp add: n_def c_def algebra_simps)
  then have r2: "200 * int k - int N - 1 < 2 * int N * p" by (simp only: of_int_less_iff)
  show ?thesis using val r1 r2 by (intro exI[of _ p]) simp
qed

section \<open>Properties of the vector math\<close>

lemma rhe_ge_floor: "\<lfloor>x\<rfloor> \<le> rhe x"
  by (simp add: rhe_def Let_def)

lemma rnd_not_NaN: "rnd q \<noteq> NaN"
  by (simp add: rnd_def Let_def)

lemma rnd_0: "rnd 0 = Fin 0"
  by (simp add: rnd_def)

lemma rnd_overflow:
  assumes "2 powi 1024 \<le> q"
  shows "rnd q = PInf"
proof -
  let ?e = "expo q"
  have "(0::rat) < 2 powi 1024" by simp
  with assms have qpos: "0 < q" by linarith
  then have aq: "\<bar>q\<bar> = q" by simp
  have e: "1024 \<le> ?e" using expo_ge[OF qpos assms] .
  then have m: "max ?e (- 1022) = ?e" by simp
  define ulp :: rat where "ulp = 2 powi (?e - 52)"
  have upos: "0 < ulp" by (simp add: ulp_def)
  have "ulp * 2 ^ 52 = 2 powi (?e - 52) * 2 powi 52" by (simp add: ulp_def)
  also have "\<dots> = 2 powi ?e" by (subst power_int_add[symmetric]) simp_all
  finally have u52: "ulp * 2 ^ 52 = 2 powi ?e" .
  have "2 powi ?e \<le> q" using expo_bounds[OF qpos] by simp
  then have "2 ^ 52 * ulp \<le> q" using u52 by (simp add: mult.commute)
  then have "2 ^ 52 \<le> q / ulp" using upos by (simp add: pos_le_divide_eq)
  then have "rat_of_int (2 ^ 52) \<le> q / ulp" by simp
  then have "2 ^ 52 \<le> \<lfloor>q / ulp\<rfloor>" by (simp only: le_floor_iff)
  then have "2 ^ 52 \<le> rhe (q / ulp)" using rhe_ge_floor[of "q / ulp"] by linarith
  then have "rat_of_int (2 ^ 52) \<le> rat_of_int (rhe (q / ulp))" by (simp only: of_int_le_iff)
  then have "rat_of_int (2 ^ 52) * ulp \<le> rat_of_int (rhe (q / ulp)) * ulp"
    using upos by (simp only: mult_le_cancel_right) simp
  then have "2 powi ?e \<le> rat_of_int (rhe (q / ulp)) * ulp" using u52 by (simp add: mult.commute)
  moreover have "(2::rat) powi 1024 \<le> 2 powi ?e" using e by (intro power_int_increasing) simp_all
  ultimately have big: "2 powi 1024 \<le> rat_of_int (rhe (q / ulp)) * ulp" by linarith
  have q0: "q \<noteq> 0" using qpos by simp
  have "rnd q = (if 2 powi 1024 \<le> rat_of_int (rhe (q / ulp)) * ulp then PInf
                 else if rat_of_int (rhe (q / ulp)) * ulp \<le> - (2 powi 1024) then NInf
                 else Fin (rat_of_int (rhe (q / ulp)) * ulp))"
    unfolding rnd_def Let_def aq m ulp_def using q0 by (simp only: if_False)
  then show ?thesis using big by (simp only: if_True)
qed

lemma zero_magnitude: "foldl (\<lambda>sum val. fadd sum (fmul val val)) (Fin 0) (replicate n (Fin 0)) = Fin 0"
  by (induction n) (simp_all add: rnd_0)

lemma normalizeVector_zero: "normalizeVector (replicate n (Fin 0)) = replicate n (Fin 0)"
  by (simp add: normalizeVector_def zero_magnitude or_one_def truthy_def rnd_0)

lemma or_one_guard: "or_one p \<noteq> Fin 0 \<and> or_one p \<noteq> NaN"
  by (simp add: or_one_def truthy_def)

lemma fdiv_finite_by_guarded:
  assumes "d \<noteq> Fin 0" "d \<noteq> NaN"
  shows "fdiv (Fin x) d \<noteq> NaN"
proof (cases d)
  case (Fin y)
  then show ?thesis using assms rnd_not_NaN by simp
qed (use assms in simp_all)

text \<open>
  C10, as the code has it. \<open>cosineSimilarity\<close> returns 0 when a vector is missing or the
  lengths differ. Otherwise it divides the dot product by a divisor that is never zero and
  never NaN (such a product of magnitudes is replaced by 1), so that a finite dot product
  never gives NaN. \<open>normalizeVector\<close> maps a zero vector to itself.
\<close>

theorem vector_math_guarded:
  "(vecA = None \<or> vecB = None \<longrightarrow> cosineSimilarity vecA vecB = Fin 0)
   \<and> (\<forall>a b. vecA = Some a \<and> vecB = Some b \<and> length a \<noteq> length b
         \<longrightarrow> cosineSimilarity vecA vecB = Fin 0)
   \<and> (\<forall>a b. vecA = Some a \<and> vecB = Some b \<and> length a = length b
         \<longrightarrow> (\<exists>d. cosineSimilarity vecA vecB = fdiv (fst (cos_loop a b (Fin 0, Fin 0, Fin 0))) d
                     \<and> d \<noteq> Fin 0 \<and> d \<noteq> NaN)
             \<and> (is_finite (fst (cos_loop a b (Fin 0, Fin 0, Fin 0)))
                  \<longrightarrow> cosineSimilarity vecA vecB \<noteq> NaN))
   \<and> normalizeVector (replicate n (Fin 0)) = replicate n (Fin 0)"
proof -
  have 1: "vecA = None \<or> vecB = None \<longrightarrow> cosineSimilarity vecA vecB = Fin 0"
    by (auto simp: cosineSimilarity_def split: option.splits)
  have 2: "\<forall>a b. vecA = Some a \<and> vecB = Some b \<and> length a \<noteq> length b
         \<longrightarrow> cosineSimilarity vecA vecB = Fin 0"
    by (simp add: cosineSimilarity_def)
  have 3: "\<forall>a b. vecA = Some a \<and> vecB = Some b \<and> length a = length b
         \<longrightarrow> (\<exists>d. cosineSimilarity vecA vecB = fdiv (fst (cos_loop a b (Fin 0, Fin 0, Fin 0))) d
                     \<and> d \<noteq> Fin 0 \<and> d \<noteq> NaN)
             \<and> (is_finite (fst (cos_loop a b (Fin 0, Fin 0, Fin 0)))
                  \<longrightarrow> cosineSimilarity vecA vecB \<noteq> NaN)"
  proof (intro allI impI)
    fix a b assume h: "vecA = Some a \<and> vecB = Some b \<and> length a = length b"
    obtain dot magA magB where l: "cos_loop a b (Fin 0, Fin 0, Fin 0) = (dot, magA, magB)"
      by (cases "cos_loop a b (Fin 0, Fin 0, Fin 0)") auto
    let ?d = "or_one (fmul (Math_sqrt magA) (Math_sqrt magB))"
    have c: "cosineSimilarity vecA vecB = fdiv dot ?d" using h l by (simp add: cosineSimilarity_def)
    have g: "?d \<noteq> Fin 0" "?d \<noteq> NaN" using or_one_guard by blast+
    have f: "is_finite dot \<longrightarrow> fdiv dot ?d \<noteq> NaN"
      using fdiv_finite_by_guarded[OF g] by (cases dot) (simp_all add: is_finite_def)
    have e: "\<exists>d. cosineSimilarity vecA vecB = fdiv dot d \<and> d \<noteq> Fin 0 \<and> d \<noteq> NaN"
      using c g by blast
    show "(\<exists>d. cosineSimilarity vecA vecB = fdiv (fst (cos_loop a b (Fin 0, Fin 0, Fin 0))) d
                     \<and> d \<noteq> Fin 0 \<and> d \<noteq> NaN)
             \<and> (is_finite (fst (cos_loop a b (Fin 0, Fin 0, Fin 0)))
                  \<longrightarrow> cosineSimilarity vecA vecB \<noteq> NaN)"
      unfolding l fst_conv using e f c by simp
  qed
  show ?thesis by (intro conjI 1 2 3 normalizeVector_zero)
qed

lemma rnd_1: "rnd 1 = Fin 1"
  by (rule rnd_num[of _ 1]) simp_all

theorem vector_math_guarded_witness:
  "cosineSimilarity None (Some [Fin 1]) = Fin 0
   \<and> cosineSimilarity (Some [Fin 1, Fin 0]) (Some [Fin 1]) = Fin 0
   \<and> cosineSimilarity (Some [Fin 1]) (Some [Fin 1]) \<noteq> NaN
   \<and> normalizeVector [Fin 0, Fin 0] = [Fin 0, Fin 0]"
proof -
  have a: "cosineSimilarity None (Some [Fin 1]) = Fin 0"
    using vector_math_guarded[of None "Some [Fin 1]" 0] by simp
  have b: "cosineSimilarity (Some [Fin 1, Fin 0]) (Some [Fin 1]) = Fin 0"
    using vector_math_guarded[of "Some [Fin 1, Fin 0]" "Some [Fin 1]" 0] by simp
  have "is_finite (fst (cos_loop [Fin 1] [Fin 1] (Fin 0, Fin 0, Fin 0)))"
    by (simp add: rnd_1 is_finite_def)
  then have c: "cosineSimilarity (Some [Fin 1]) (Some [Fin 1]) \<noteq> NaN"
    using vector_math_guarded[of "Some [Fin 1]" "Some [Fin 1]" 0] by simp
  have "normalizeVector (replicate 2 (Fin 0)) = replicate 2 (Fin 0)"
    using vector_math_guarded[of None None 2] by (rule_tac conjunct2[THEN conjunct2, THEN conjunct2])
  then have d: "normalizeVector [Fin 0, Fin 0] = [Fin 0, Fin 0]"
    by (simp add: numeral_2_eq_2)
  show ?thesis by (intro conjI a b c d)
qed

text \<open>
  The claim fails: the two arrays hold the finite number \<open>2^600\<close>; its square overflows,
  the sums and the product of the magnitudes are infinite, and the result is NaN.
\<close>

theorem cosineSimilarity_overflow_counterexample:
  "cosineSimilarity (Some [Fin (2 ^ 600)]) (Some [Fin (2 ^ 600)]) = NaN
   \<and> \<not> is_finite (cosineSimilarity (Some [Fin (2 ^ 600)]) (Some [Fin (2 ^ 600)]))"
proof -
  define x :: rat where "x = 2 ^ 600"
  have "(2::rat) powi 1024 \<le> 2 powi 1200" by (intro power_int_increasing) simp_all
  also have "(2::rat) powi 1200 = 2 ^ 600 * 2 ^ 600" by (simp add: power_add[symmetric])
  finally have "2 powi 1024 \<le> x * x" by (simp only: x_def)
  then have sq: "rnd (x * x) = PInf" by (rule rnd_overflow)
  have "cosineSimilarity (Some [Fin x]) (Some [Fin x]) = NaN"
    by (simp add: cosineSimilarity_def sq or_one_def truthy_def signed_inf_def)
  then have "cosineSimilarity (Some [Fin (2 ^ 600)]) (Some [Fin (2 ^ 600)]) = NaN"
    by (simp only: x_def)
  then show ?thesis by (simp only: is_finite_def jsnum.case simp_thms)
qed

section \<open>The initial article load\<close>

lemma example_dates:
  "cutoff_jan1 < ''2024-01-03T12:00:00.000Z''"
  "cutoff_jan1 < ''2024-01-03T00:00:00.000Z''"
  "cutoff_jan1 < ''2024-01-02T00:00:00.000Z''"
  "''2024-01-02T00:00:00.000Z'' < ''2024-01-03T00:00:00.000Z''"
  by (simp_all add: cutoff_jan1_def less_char_def)

lemma example_select:
  "filter (unclustered_recent cutoff_jan1) [row_clustered, row_jan3, row_jan2] = [row_jan3, row_jan2]"
  using example_dates
  by (simp add: unclustered_recent_def row_clustered_def row_jan3_def row_jan2_def example_row_def)

text \<open>
  C3, as the code has it. The load returns only rows with \<open>cluster_id\<close> NULL and
  \<open>pub_date\<close> after the cutoff, at most 50 of them, all of them when there are no more
  than 50; they come in the order in which the table scan meets them, since the query has
  no ORDER BY.
\<close>

theorem selectUnclustered_scan_order:
  "(\<forall>r \<in> set (selectUnclustered cutoffDate rows).
       r \<in> set rows \<and> cluster_id r = None \<and> (\<exists>d. pub_date r = Some d \<and> cutoffDate < d))
   \<and> length (selectUnclustered cutoffDate rows) \<le> 50
   \<and> subseq (selectUnclustered cutoffDate rows) rows
   \<and> (length (filter (unclustered_recent cutoffDate) rows) \<le> 50 \<longrightarrow>
        selectUnclustered cutoffDate rows = filter (unclustered_recent cutoffDate) rows)"
proof -
  let ?f = "filter (unclustered_recent cutoffDate) rows"
  have a: "\<forall>r \<in> set (take 50 ?f).
       r \<in> set rows \<and> cluster_id r = None \<and> (\<exists>d. pub_date r = Some d \<and> cutoffDate < d)"
  proof
    fix r assume "r \<in> set (take 50 ?f)"
    then have "r \<in> set ?f" by (rule in_set_takeD)
    then show "r \<in> set rows \<and> cluster_id r = None \<and> (\<exists>d. pub_date r = Some d \<and> cutoffDate < d)"
      by (auto simp: unclustered_recent_def split: option.splits)
  qed
  have "subseq (take 50 ?f) ?f" by (rule prefix_imp_subseq) (rule take_is_prefix)
  moreover have "subseq ?f rows" by simp
  ultimately have c: "subseq (take 50 ?f) rows" by (rule subseq_order.trans)
  have b: "length (take 50 ?f) \<le> 50" by simp
  have d: "length ?f \<le> 50 \<longrightarrow> take 50 ?f = ?f" by simp
  show ?thesis unfolding selectUnclustered_def by (intro conjI a b c d)
qed

theorem selectUnclustered_scan_order_witness:
  "selectUnclustered cutoff_jan1 [row_clustered, row_jan3, row_jan2] = [row_jan3, row_jan2]"
proof -
  have "length (filter (unclustered_recent cutoff_jan1) [row_clustered, row_jan3, row_jan2]) \<le> 50"
    by (simp only: example_select) simp
  then have "selectUnclustered cutoff_jan1 [row_clustered, row_jan3, row_jan2]
          = filter (unclustered_recent cutoff_jan1) [row_clustered, row_jan3, row_jan2]"
    by (rule selectUnclustered_scan_order[of cutoff_jan1 "[row_clustered, row_jan3, row_jan2]",
          THEN conjunct2, THEN conjunct2, THEN conjunct2, THEN mp])
  then show ?thesis by (simp only: example_select)
qed

text \<open>
  The claim fails: the article of 3 January is returned before the article of 2 January,
  so the result is not sorted oldest first.
\<close>

theorem selectUnclustered_unsorted_counterexample:
  "selectUnclustered cutoff_jan1 [row_clustered, row_jan3, row_jan2] = [row_jan3, row_jan2]
   \<and> pub_date row_jan3 = Some ''2024-01-03T00:00:00.000Z''
   \<and> pub_date row_jan2 = Some ''2024-01-02T00:00:00.000Z''
   \<and> ''2024-01-02T00:00:00.000Z'' < ''2024-01-03T00:00:00.000Z''"
proof -
  have a: "selectUnclustered cutoff_jan1 [row_clustered, row_jan3, row_jan2] = [row_jan3, row_jan2]"
    unfolding selectUnclustered_def example_select by (rule take_all) simp
  have b: "pub_date row_jan3 = Some ''2024-01-03T00:00:00.000Z''"
    by (simp add: row_jan3_def)
  have c: "pub_date row_jan2 = Some ''2024-01-02T00:00:00.000Z''"
    by (simp add: row_jan2_def)
  show ?thesis by (intro conjI a b c example_dates(4))
qed

section \<open>Properties of the clusterer\<close>

lemma MAX_TIME_DIFF_MS_val: "MAX_TIME_DIFF_MS = Fin 172800000"
proof -
  have a: "rnd 2880 = Fin 2880" by (rule rnd_num[of _ 2880]) simp_all
  have b: "rnd 172800 = Fin 172800" by (rule rnd_num[of _ 172800]) simp_all
  have c: "rnd 172800000 = Fin 172800000" by (rule rnd_num[of _ 172800000]) simp_all
  show ?thesis by (simp add: MAX_TIME_DIFF_MS_def a b c)
qed

lemma TIME_CHECK_int:
  assumes "latestTime c = Fin (of_int l)" "\<bar>t\<bar> < 2 ^ 52" "\<bar>l\<bar> < 2 ^ 52"
  shows "TIME_CHECK (Fin (of_int t)) c \<longleftrightarrow> 172800000 < \<bar>t - l\<bar>"
proof -
  have "\<bar>t - l\<bar> < 2 ^ 53" using assms(2,3) by simp
  then have "rnd (of_int (t - l)) = Fin (of_int (t - l))" by (rule rnd_int)
  then have "fsub (Fin (of_int t)) (latestTime c) = Fin (of_int (t - l))"
    by (simp add: fsub_def assms(1))
  then have "TIME_CHECK (Fin (of_int t)) c \<longleftrightarrow> rat_of_int 172800000 < rat_of_int \<bar>t - l\<bar>"
    by (simp add: TIME_CHECK_def MAX_TIME_DIFF_MS_val fgt_def)
  then show ?thesis by (simp only: of_int_less_iff)
qed

lemma scan_all_out_of_window:
  "\<forall>c \<in> set cs. TIME_CHECK t c \<Longrightarrow> scan lowtrim a t cs i (bestIdx, maxSim) = Inr (None, bestIdx, maxSim)"
  by (induction cs arbitrary: i) simp_all

text \<open>
  The time check precedes the duplicate check. When the code's test
  \<open>Math.abs(articleTime - cluster.latestTime) > MAX_TIME_DIFF_MS\<close> holds for every
  existing cluster, the article is never compared with any member: whatever its headline
  and embedding, no exception is raised, no cluster is changed and a new singleton cluster
  is appended. The time tested is that of the property \<open>pubDate\<close> only for an object that
  has this property.
\<close>

lemma time_window_isolation:
  assumes "\<forall>c \<in> set microClusters. TIME_CHECK (articleTime now a) c"
  shows "processArticle lowtrim now a microClusters =
           Inr (microClusters @ [\<lparr>centroid = obj_embedding a, articles = [a],
                                   latestTime = articleTime now a\<rparr>])"
  using scan_all_out_of_window[OF assms] by (simp add: processArticle_def Let_def)

text \<open>
  For an object that does carry \<open>pubDate\<close>: A3, 49 hours after the only cluster, opens a
  cluster of its own although its headline is that of A1.
\<close>

lemma time_window_isolation_witness:
  "processArticle (\<lambda>s. s) (Fin 0) art_A3 [cluster_of_A1] =
     Inr [cluster_of_A1,
          \<lparr>centroid = Some [Fin 1, Fin 0], articles = [art_A3], latestTime = Fin 176400000\<rparr>]"
proof -
  have l: "latestTime cluster_of_A1 = Fin (of_int 0)" by (simp add: cluster_of_A1_def)
  have "TIME_CHECK (Fin (of_int 176400000)) cluster_of_A1 \<longleftrightarrow> 172800000 < \<bar>176400000 - (0::int)\<bar>"
    by (rule TIME_CHECK_int[OF l]) simp_all
  then have "TIME_CHECK (Fin 176400000) cluster_of_A1" by simp
  then have h: "\<forall>c \<in> set [cluster_of_A1]. TIME_CHECK (articleTime (Fin 0) art_A3) c"
    by (simp add: articleTime_def art_A3_def)
  show ?thesis
    using time_window_isolation[OF h, of "\<lambda>s. s"] by (simp add: articleTime_def art_A3_def)
qed

lemma scan_first_duplicate:
  assumes "i < length cs" "\<not> TIME_CHECK t (cs ! i)"
    "duplicateMatch lowtrim a (articles (cs ! i)) = Inr True"
    "\<forall>j<i. TIME_CHECK t (cs ! j) \<or> duplicateMatch lowtrim a (articles (cs ! j)) = Inr False"
  shows "\<exists>b m. scan lowtrim a t cs k (bestIdx, maxSim) = Inr (Some (k + i), b, m)"
  using assms
proof (induction cs arbitrary: i k bestIdx maxSim)
  case Nil
  then show ?case by simp
next
  case (Cons c cs)
  show ?case
  proof (cases i)
    case 0
    with Cons.prems show ?thesis by simp
  next
    case (Suc i')
    have c0: "TIME_CHECK t c \<or> duplicateMatch lowtrim a (articles c) = Inr False"
      using Cons.prems(4) Suc by auto
    have p1: "i' < length cs" using Cons.prems(1) Suc by simp
    have p2: "\<not> TIME_CHECK t (cs ! i')" using Cons.prems(2) Suc by simp
    have p3: "duplicateMatch lowtrim a (articles (cs ! i')) = Inr True" using Cons.prems(3) Suc by simp
    have p4: "\<forall>j<i'. TIME_CHECK t (cs ! j) \<or> duplicateMatch lowtrim a (articles (cs ! j)) = Inr False"
      using Cons.prems(4) Suc by auto
    from Cons.IH[OF p1 p2 p3 p4]
    have ih: "\<exists>b m. scan lowtrim a t cs (Suc k) (bi, ms) = Inr (Some (Suc k + i'), b, m)" for bi ms
      by blast
    show ?thesis
    proof (cases "TIME_CHECK t c")
      case True
      then show ?thesis using ih[of bestIdx maxSim] Suc by simp
    next
      case False
      with c0 have d: "duplicateMatch lowtrim a (articles c) = Inr False" by simp
      show ?thesis
        using False d ih[of bestIdx maxSim] ih[of "int k" "cosineSimilarity (obj_embedding a) (centroid c)"] Suc
        by (simp add: Let_def)
    qed
  qed
qed

text \<open>
  What the duplicate check does, in general: the first cluster (in insertion order) that is
  inside the time window and has a matching member receives the article; its centroid and
  its \<open>latestTime\<close> stay as they were, and no other cluster changes.
\<close>

lemma duplicate_first_match:
  assumes "i < length cs" "\<not> TIME_CHECK (articleTime now a) (cs ! i)"
    "duplicateMatch lowtrim a (articles (cs ! i)) = Inr True"
    "\<forall>j<i. TIME_CHECK (articleTime now a) (cs ! j)
            \<or> duplicateMatch lowtrim a (articles (cs ! j)) = Inr False"
  shows "processArticle lowtrim now a cs = Inr (cs[i := (cs ! i)\<lparr>articles := articles (cs ! i) @ [a]\<rparr>])"
proof -
  from scan_first_duplicate[OF assms, of 0 "- 1" "Fin (- 1)"]
  obtain b m where "scan lowtrim a (articleTime now a) cs 0 (- 1, Fin (- 1)) = Inr (Some i, b, m)"
    by auto
  then show ?thesis by (simp add: processArticle_def Let_def)
qed

text \<open>
  An object spread from a row has the column \<open>pub_date\<close> but no property \<open>pubDate\<close>,
  so its time in the clusterer is the reading of the clock.
\<close>

lemma row_object_time: "articleTime now (obj r v) = now"
  by (simp add: articleTime_def obj_def)

text \<open>
  C2, at a concrete input. Two articles with the same headline are clustered in one run;
  the clock reads 1700000000000 for the first and 1700000000001 for the second. The
  second article joins the cluster of the first as a duplicate and the centroid is kept,
  but \<open>latestTime\<close> stays at the time of the first article although the time of the
  second is newer.
\<close>

theorem duplicate_merge_keeps_latestTime:
  "clusterArticles lowtrim clock_example [dup_1, dup_2]
     = Inr [\<lparr>centroid = Some [Fin 1, Fin 0], articles = [dup_1, dup_2],
              latestTime = Fin 1700000000000\<rparr>]
   \<and> articleTime (clock_example 1) dup_2 = Fin 1700000000001"
proof -
  let ?c = "\<lparr>centroid = Some [Fin 1, Fin 0], articles = [dup_1], latestTime = Fin 1700000000000\<rparr>"
  have c0: "clock_example 0 = Fin 1700000000000" and c1: "clock_example (Suc 0) = Fin 1700000000001"
    by (simp_all add: clock_example_def)
  have e: "obj_embedding dup_1 = Some [Fin 1, Fin 0]" "obj_embedding dup_2 = Some [Fin 1, Fin 0]"
    by (simp_all add: dup_1_def dup_2_def obj_def)
  have t1: "articleTime (Fin 1700000000000) dup_1 = Fin 1700000000000"
    and t2: "articleTime (Fin 1700000000001) dup_2 = Fin 1700000000001"
    unfolding dup_1_def dup_2_def by (rule row_object_time)+
  have s1: "processArticle lowtrim (Fin 1700000000000) dup_1 [] = Inr [?c]"
    by (simp add: processArticle_def t1 e)
  have l: "latestTime ?c = Fin (of_int 1700000000000)" by simp
  have "TIME_CHECK (Fin (of_int 1700000000001)) ?c
          \<longleftrightarrow> 172800000 < \<bar>1700000000001 - (1700000000000::int)\<bar>"
    by (rule TIME_CHECK_int[OF l]) simp_all
  then have w: "\<not> TIME_CHECK (articleTime (Fin 1700000000001) dup_2) ([?c] ! 0)"
    unfolding t2 by simp
  have d: "duplicateMatch lowtrim dup_2 (articles ([?c] ! 0)) = Inr True"
    by (simp add: dup_1_def dup_2_def obj_def example_row_def)
  have "processArticle lowtrim (Fin 1700000000001) dup_2 [?c]
          = Inr ([?c][0 := ([?c] ! 0)\<lparr>articles := articles ([?c] ! 0) @ [dup_2]\<rparr>])"
    by (rule duplicate_first_match[OF _ w d]) simp_all
  then have s2: "processArticle lowtrim (Fin 1700000000001) dup_2 [?c]
          = Inr [\<lparr>centroid = Some [Fin 1, Fin 0], articles = [dup_1, dup_2],
                   latestTime = Fin 1700000000000\<rparr>]"
    by simp
  have "clusterArticles lowtrim clock_example [dup_1, dup_2]
     = Inr [\<lparr>centroid = Some [Fin 1, Fin 0], articles = [dup_1, dup_2],
              latestTime = Fin 1700000000000\<rparr>]"
    by (simp add: clusterArticles_def e c0 c1 s1 s2)
  moreover have "articleTime (clock_example 1) dup_2 = Fin 1700000000001"
    using t2 c1 by simp
  ultimately show ?thesis by (rule conjI)
qed

text \<open>
  C8, at a concrete input. Two unclustered rows have the same headline and \<open>pub_date\<close>
  columns 49 hours apart (2024-01-01T00:00 and 2024-01-03T01:00); the pipeline hands the
  objects spread from them to the clusterer in one run, the clock reading
  2024-01-03T02:00. The objects have no property \<open>pubDate\<close>, so the time of each is the
  reading of the clock and the time check lets the second article through to the
  duplicate check: the result is one cluster holding both articles, not two clusters.
\<close>

theorem time_window_ignores_pub_date:
  "pub_date (row obj_A1) = Some ''2024-01-01T00:00:00.000Z''
   \<and> pub_date (row obj_A3) = Some ''2024-01-03T01:00:00.000Z''
   \<and> articleTime (clock_jan3 0) obj_A1 = Fin 1704247200000
   \<and> articleTime (clock_jan3 1) obj_A3 = Fin 1704247200001
   \<and> clusterArticles lowtrim clock_jan3 [obj_A1, obj_A3]
       = Inr [\<lparr>centroid = Some [Fin 1, Fin 0], articles = [obj_A1, obj_A3],
                latestTime = Fin 1704247200000\<rparr>]"
proof -
  let ?c = "\<lparr>centroid = Some [Fin 1, Fin 0], articles = [obj_A1], latestTime = Fin 1704247200000\<rparr>"
  have c0: "clock_jan3 0 = Fin 1704247200000" and c1: "clock_jan3 (Suc 0) = Fin 1704247200001"
    by (simp_all add: clock_jan3_def)
  have p1: "pub_date (row obj_A1) = Some ''2024-01-01T00:00:00.000Z''"
    by (simp add: obj_A1_def obj_def)
  have p3: "pub_date (row obj_A3) = Some ''2024-01-03T01:00:00.000Z''"
    by (simp add: obj_A3_def obj_def)
  have e: "obj_embedding obj_A1 = Some [Fin 1, Fin 0]" "obj_embedding obj_A3 = Some [Fin 1, Fin 0]"
    by (simp_all add: obj_A1_def obj_A3_def obj_def)
  have t1: "articleTime (Fin 1704247200000) obj_A1 = Fin 1704247200000"
    and t2: "articleTime (Fin 1704247200001) obj_A3 = Fin 1704247200001"
    unfolding obj_A1_def obj_A3_def by (rule row_object_time)+
  have s1: "processArticle lowtrim (Fin 1704247200000) obj_A1 [] = Inr [?c]"
    by (simp add: processArticle_def t1 e)
  have l: "latestTime ?c = Fin (of_int 1704247200000)" by simp
  have "TIME_CHECK (Fin (of_int 1704247200001)) ?c
          \<longleftrightarrow> 172800000 < \<bar>1704247200001 - (1704247200000::int)\<bar>"
    by (rule TIME_CHECK_int[OF l]) simp_all
  then have w: "\<not> TIME_CHECK (articleTime (Fin 1704247200001) obj_A3) ([?c] ! 0)"
    unfolding t2 by simp
  have d: "duplicateMatch lowtrim obj_A3 (articles ([?c] ! 0)) = Inr True"
    by (simp add: obj_A1_def obj_A3_def obj_def example_row_def)
  have "processArticle lowtrim (Fin 1704247200001) obj_A3 [?c]
          = Inr ([?c][0 := ([?c] ! 0)\<lparr>articles := articles ([?c] ! 0) @ [obj_A3]\<rparr>])"
    by (rule duplicate_first_match[OF _ w d]) simp_all
  then have s2: "processArticle lowtrim (Fin 1704247200001) obj_A3 [?c]
          = Inr [\<lparr>centroid = Some [Fin 1, Fin 0], articles = [obj_A1, obj_A3],
                   latestTime = Fin 1704247200000\<rparr>]"
    by simp
  have r: "clusterArticles lowtrim clock_jan3 [obj_A1, obj_A3]
     = Inr [\<lparr>centroid = Some [Fin 1, Fin 0], articles = [obj_A1, obj_A3],
              latestTime = Fin 1704247200000\<rparr>]"
    by (simp add: clusterArticles_def e c0 c1 s1 s2)
  have u1: "articleTime (clock_jan3 0) obj_A1 = Fin 1704247200000" using t1 c0 by simp
  have u2: "articleTime (clock_jan3 1) obj_A3 = Fin 1704247200001" using t2 c1 by simp
  show ?thesis by (intro conjI p1 p3 u1 u2 r)
qed
section \<open>Properties of the labeler\<close>

text \<open>
  C5, as the code has it. For a cluster with a first member, a rejected request or a text
  that \<open>JSON.parse\<close> rejects gives the fallback label (the first member's headline and
  summary, category General). A text that parses is never checked against a schema: the
  label is whatever properties the parsed value has, also when some are missing.
\<close>

theorem labeler_fallback:
  assumes "articles cluster = first # rest"
  shows "(gen n = Rejected \<or> (\<exists>t. gen n = Response t \<and> JSON_parse (text_or_empty_object t) = None)
            \<longrightarrow> fst (processCluster JSON_parse gen n cluster)
                  = Some \<lparr> l_headline = of_column (headline (row first)),
                           l_summary = of_column (summary (row first)),
                           l_category = Some (JStr ''General''),
                           l_articles = articles cluster \<rparr>)
       \<and> (\<forall>t data. gen n = Response t \<and> JSON_parse (text_or_empty_object t) = Some data
            \<longrightarrow> fst (processCluster JSON_parse gen n cluster)
                  = Some \<lparr> l_headline = spread_prop data ''headline'',
                           l_summary = spread_prop data ''summary'',
                           l_category = spread_prop data ''category'',
                           l_articles = articles cluster \<rparr>)"
  using assms by (auto simp: processCluster_def label_of_def fallback_label_def)

theorem labeler_fallback_witness:
  "fst (processCluster parse_example (\<lambda>n. Response (Some ''oops'')) 0 cluster_of_A1)
     = Some \<lparr> l_headline = Some (JStr ''Parliament passes bill X''), l_summary = Some JNull,
              l_category = Some (JStr ''General''), l_articles = [art_A1] \<rparr>
   \<and> fst (processCluster parse_example (\<lambda>n. Response (Some good_label_text)) 0 cluster_of_A1)
     = Some \<lparr> l_headline = Some (JStr ''Bill X passes''),
              l_summary = Some (JStr ''Parliament passed bill X.''),
              l_category = Some (JStr ''Politics''), l_articles = [art_A1] \<rparr>"
proof -
  have a: "articles cluster_of_A1 = art_A1 # []" by (simp add: cluster_of_A1_def)
  have p: "parse_example (text_or_empty_object (Some ''oops'')) = None"
    by (simp add: parse_example_def text_or_empty_object_def good_label_text_def)
  have g: "parse_example (text_or_empty_object (Some good_label_text))
             = Some (JObj [(''headline'', JStr ''Bill X passes''),
                           (''summary'', JStr ''Parliament passed bill X.''),
                           (''category'', JStr ''Politics'')])"
    by (simp add: parse_example_def text_or_empty_object_def good_label_text_def)
  from labeler_fallback[OF a, of "\<lambda>n. Response (Some ''oops'')" 0 parse_example] p
  have 1: "fst (processCluster parse_example (\<lambda>n. Response (Some ''oops'')) 0 cluster_of_A1)
     = Some \<lparr> l_headline = Some (JStr ''Parliament passes bill X''), l_summary = Some JNull,
              l_category = Some (JStr ''General''), l_articles = [art_A1] \<rparr>"
    by (simp add: a art_A1_def example_row_def of_column_def)
  from labeler_fallback[OF a, of "\<lambda>n. Response (Some good_label_text)" 0 parse_example] g
  have 2: "fst (processCluster parse_example (\<lambda>n. Response (Some good_label_text)) 0 cluster_of_A1)
     = Some \<lparr> l_headline = Some (JStr ''Bill X passes''),
              l_summary = Some (JStr ''Parliament passed bill X.''),
              l_category = Some (JStr ''Politics''), l_articles = [art_A1] \<rparr>"
    by (simp add: a spread_prop_def)
  from 1 2 show ?thesis by simp
qed

text \<open>
  The claim fails for a schema mismatch: an empty response text is read as \<open>{}\<close>, which
  parses, and the label comes back without headline, summary and category instead of the
  fallback.
\<close>

theorem labeler_schema_mismatch_counterexample:
  "fst (processCluster parse_example (\<lambda>n. Response None) 0 cluster_of_A1)
     = Some \<lparr> l_headline = None, l_summary = None, l_category = None, l_articles = [art_A1] \<rparr>
   \<and> fst (processCluster parse_example (\<lambda>n. Response None) 0 cluster_of_A1)
     \<noteq> Some (fallback_label art_A1 [art_A1])"
  by (simp add: processCluster_def label_of_def fallback_label_def cluster_of_A1_def
        parse_example_def text_or_empty_object_def spread_prop_def of_column_def)

text \<open>
  C6, as the code has it. Nothing is retried: a cluster with members costs exactly one
  request, and when that request is rejected the fallback label is returned at once,
  whatever a further request would have answered.
\<close>

theorem labeler_single_request:
  assumes "articles cluster = first # rest" "gen n = Rejected"
  shows "processCluster JSON_parse gen n cluster = (Some (fallback_label first (articles cluster)), Suc n)"
  using assms by (simp add: processCluster_def label_of_def)

theorem labeler_single_request_witness:
  "processCluster parse_example gen_flaky 0 cluster_of_A1 = (Some (fallback_label art_A1 [art_A1]), 1)"
proof -
  have a: "articles cluster_of_A1 = art_A1 # []" by (simp add: cluster_of_A1_def)
  have g: "gen_flaky 0 = Rejected" by (simp add: gen_flaky_def)
  from labeler_single_request[of cluster_of_A1 art_A1 "[]" gen_flaky 0 parse_example, OF a g]
  show ?thesis by (simp add: a)
qed

text \<open>
  The claim fails: the first request is rejected and a second one would have returned a
  well-formed label, yet only one request is made and the fallback label is returned.
\<close>

theorem labeler_no_retry_counterexample:
  "snd (processCluster parse_example gen_flaky 0 cluster_of_A1) = 1
   \<and> fst (processCluster parse_example gen_flaky 0 cluster_of_A1) = Some (fallback_label art_A1 [art_A1])
   \<and> label_of parse_example (gen_flaky 1) art_A1 [art_A1] \<noteq> fallback_label art_A1 [art_A1]"
  by (simp add: processCluster_def label_of_def fallback_label_def cluster_of_A1_def gen_flaky_def
        parse_example_def text_or_empty_object_def spread_prop_def good_label_text_def)

section \<open>Properties of the statistics\<close>

lemma count_bias_counts:
  "count_bias arts (l, r, c) =
     (l + length (filter (\<lambda>a. rating_includes a ''Left'') arts),
      r + length (filter (\<lambda>a. \<not> rating_includes a ''Left'' \<and> rating_includes a ''Right'') arts),
      c + length (filter (\<lambda>a. \<not> rating_includes a ''Left'' \<and> \<not> rating_includes a ''Right'') arts))"
  by (induction arts arbitrary: l r c) simp_all

lemma three_way_partition:
  "length (filter (\<lambda>a. rating_includes a ''Left'') arts)
   + length (filter (\<lambda>a. \<not> rating_includes a ''Left'' \<and> rating_includes a ''Right'') arts)
   + length (filter (\<lambda>a. \<not> rating_includes a ''Left'' \<and> \<not> rating_includes a ''Right'') arts)
   = length arts"
  by (induction arts) simp_all

lemma pct_range:
  assumes "0 < (N::int)" "0 \<le> k" "k \<le> N" "2 * N * p \<le> 200 * k + N" "200 * k - N \<le> 2 * N * p"
  shows "0 \<le> p \<and> p \<le> 100"
proof -
  define x where "x = N * p"
  have u: "2 * x \<le> 200 * k + N" and l: "200 * k - N \<le> 2 * x"
    using assms(4,5) by (simp_all add: x_def)
  have "\<not> p \<le> - 1"
  proof
    assume "p \<le> - 1"
    then have "N * p \<le> N * (- 1)" using assms(1) by (intro mult_left_mono) simp_all
    then have "x \<le> - N" by (simp add: x_def)
    then show False using l assms(1,2) by linarith
  qed
  moreover have "\<not> 101 \<le> p"
  proof
    assume "101 \<le> p"
    then have "N * 101 \<le> N * p" using assms(1) by (intro mult_left_mono) simp_all
    then have "101 * N \<le> x" by (simp add: x_def)
    then show False using u assms(1,3) by linarith
  qed
  ultimately show ?thesis by simp
qed

lemma fsub_int:
  assumes "\<bar>a - b\<bar> < 2 ^ 53"
  shows "fsub (Fin (of_int a)) (Fin (of_int b)) = Fin (of_int (a - b))"
proof -
  have "rnd (rat_of_int a + - rat_of_int b) = rnd (of_int (a - b))" by simp
  then show ?thesis using rnd_int[OF assms] by (simp add: fsub_def)
qed

text \<open>
  C7, as the code has it. For a cluster with members: the counters are the number of
  members whose rating contains Left, the number of the others whose rating contains Right,
  and the rest; \<open>leftPct\<close> and \<open>rightPct\<close> are integers at distance at most 1/2 from
  \<open>100 * left / N\<close> and \<open>100 * right / N\<close> (\<open>Math.round\<close> of the double
  \<open>(left / N) * 100\<close>); the centre percentage is 100 minus both, so that the three sum to
  100; and the blindspot follows the two threshold tests.
\<close>

theorem stats_computation:
  assumes "arts \<noteq> []" "length arts < 2 ^ 32"
  shows "\<exists>lp rp :: int.
           count_bias arts (0, 0, 0)
             = (length (filter (\<lambda>a. rating_includes a ''Left'') arts),
                length (filter (\<lambda>a. \<not> rating_includes a ''Left'' \<and> rating_includes a ''Right'') arts),
                length arts - length (filter (\<lambda>a. rating_includes a ''Left'') arts)
                  - length (filter (\<lambda>a. \<not> rating_includes a ''Left'' \<and> rating_includes a ''Right'') arts))
           \<and> totalSources (computeStats arts) = length arts
           \<and> left (biasDistribution (computeStats arts)) = Fin (of_int lp)
           \<and> right (biasDistribution (computeStats arts)) = Fin (of_int rp)
           \<and> center (biasDistribution (computeStats arts)) = Fin (of_int (100 - lp - rp))
           \<and> \<bar>2 * int (length arts) * lp
                - 200 * int (length (filter (\<lambda>a. rating_includes a ''Left'') arts))\<bar> \<le> int (length arts)
           \<and> \<bar>2 * int (length arts) * rp
                - 200 * int (length (filter (\<lambda>a. \<not> rating_includes a ''Left'' \<and> rating_includes a ''Right'') arts))\<bar>
               \<le> int (length arts)
           \<and> blindspot (computeStats arts)
               = (if lp < 15 \<and> 50 < rp then ''Left''
                  else if rp < 15 \<and> 50 < lp then ''Right'' else ''None'')"
proof -
  define N where "N = length arts"
  define nl where "nl = length (filter (\<lambda>a. rating_includes a ''Left'') arts)"
  define nr where "nr = length (filter (\<lambda>a. \<not> rating_includes a ''Left'' \<and> rating_includes a ''Right'') arts)"
  define nc where "nc = length (filter (\<lambda>a. \<not> rating_includes a ''Left'' \<and> \<not> rating_includes a ''Right'') arts)"
  have part: "nl + nr + nc = N" unfolding nl_def nr_def nc_def N_def by (rule three_way_partition)
  have cnt: "count_bias arts (0, 0, 0) = (nl, nr, nc)"
    unfolding nl_def nr_def nc_def by (simp add: count_bias_counts)
  have nc: "nc = N - nl - nr" using part by simp
  have Npos: "0 < N" using assms(1) by (simp add: N_def)
  have Nlt: "N < 2 ^ 32" using assms(2) by (simp add: N_def)
  have lN: "nl \<le> N" and rN: "nr \<le> N" using part by simp_all
  from pct_nearest[OF lN Npos Nlt] obtain lp where
    lp: "pct nl N = Fin (of_int lp)" "2 * int N * lp \<le> 200 * int nl + int N"
        "200 * int nl - int N \<le> 2 * int N * lp" by blast
  from pct_nearest[OF rN Npos Nlt] obtain rp where
    rp: "pct nr N = Fin (of_int rp)" "2 * int N * rp \<le> 200 * int nr + int N"
        "200 * int nr - int N \<le> 2 * int N * rp" by blast
  have lr: "0 \<le> lp \<and> lp \<le> 100"
    using pct_range[of "int N" "int nl" lp] Npos lN lp(2,3) by simp
  have rr: "0 \<le> rp \<and> rp \<le> 100"
    using pct_range[of "int N" "int nr" rp] Npos rN rp(2,3) by simp
  have "\<bar>100 - lp\<bar> < 2 ^ 53" using lr by simp
  from fsub_int[OF this] have s1: "fsub (Fin 100) (Fin (of_int lp)) = Fin (of_int (100 - lp))"
    by simp
  have "\<bar>(100 - lp) - rp\<bar> \<le> 200" using lr rr by linarith
  moreover have "(200::int) < 2 ^ 53" by simp
  ultimately have "\<bar>(100 - lp) - rp\<bar> < 2 ^ 53" by (rule order_le_less_trans)
  from fsub_int[OF this]
  have s2: "fsub (Fin (of_int (100 - lp))) (Fin (of_int rp)) = Fin (of_int (100 - lp - rp))" .
  have t: "totalSources (computeStats arts) = N"
    by (simp add: computeStats_def cnt Let_def N_def)
  have l: "left (biasDistribution (computeStats arts)) = Fin (of_int lp)"
    using lp(1) by (simp add: computeStats_def cnt Let_def N_def)
  have r: "right (biasDistribution (computeStats arts)) = Fin (of_int rp)"
    using rp(1) by (simp add: computeStats_def cnt Let_def N_def)
  have c: "center (biasDistribution (computeStats arts)) = Fin (of_int (100 - lp - rp))"
    using lp(1) rp(1) s1 s2 by (simp add: computeStats_def cnt Let_def N_def)
  have b: "blindspot (computeStats arts)
               = (if lp < 15 \<and> 50 < rp then ''Left''
                  else if rp < 15 \<and> 50 < lp then ''Right'' else ''None'')"
    using lp(1) rp(1) by (simp add: computeStats_def cnt Let_def N_def fgt_def)
  have dl: "\<bar>2 * int N * lp - 200 * int nl\<bar> \<le> int N" using lp(2,3) by simp
  have dr: "\<bar>2 * int N * rp - 200 * int nr\<bar> \<le> int N" using rp(2,3) by simp
  have cnt': "count_bias arts (0, 0, 0) = (nl, nr, N - nl - nr)" using cnt nc by simp
  have "count_bias arts (0, 0, 0) = (nl, nr, N - nl - nr)
           \<and> totalSources (computeStats arts) = N
           \<and> left (biasDistribution (computeStats arts)) = Fin (of_int lp)
           \<and> right (biasDistribution (computeStats arts)) = Fin (of_int rp)
           \<and> center (biasDistribution (computeStats arts)) = Fin (of_int (100 - lp - rp))
           \<and> \<bar>2 * int N * lp - 200 * int nl\<bar> \<le> int N
           \<and> \<bar>2 * int N * rp - 200 * int nr\<bar> \<le> int N
           \<and> blindspot (computeStats arts)
               = (if lp < 15 \<and> 50 < rp then ''Left''
                  else if rp < 15 \<and> 50 < lp then ''Right'' else ''None'')"
    by (intro conjI cnt' t l r c dl dr b)
  then show ?thesis unfolding N_def nl_def nr_def by blast
qed

lemma rated_includes:
  "rating_includes (rated ''Left'') ''Left''"
  "\<not> rating_includes (rated ''Center'') ''Left''"
  "\<not> rating_includes (rated ''Center'') ''Right''"
  "\<not> rating_includes (rated ''Center Right'') ''Left''"
  "rating_includes (rated ''Center Right'') ''Right''"
  by (simp_all add: rating_includes_def rated_def example_row_def)

lemma ten_members_counts:
  "length ten_members = 10"
  "length (filter (\<lambda>a. rating_includes a ''Left'') ten_members) = 7"
  "length (filter (\<lambda>a. \<not> rating_includes a ''Left'' \<and> rating_includes a ''Right'') ten_members) = 2"
  by (simp_all add: ten_members_def rated_includes)

theorem stats_computation_witness:
  "totalSources (computeStats ten_members) = 10
   \<and> left (biasDistribution (computeStats ten_members)) = Fin 70
   \<and> right (biasDistribution (computeStats ten_members)) = Fin 20
   \<and> center (biasDistribution (computeStats ten_members)) = Fin 10
   \<and> blindspot (computeStats ten_members) = ''None''"
proof -
  have h1: "ten_members \<noteq> []" by (simp add: ten_members_def)
  have h2: "length ten_members < 2 ^ 32" by (simp add: ten_members_counts)
  from stats_computation[OF h1 h2] obtain lp rp :: int where
    t: "totalSources (computeStats ten_members) = length ten_members"
    and l: "left (biasDistribution (computeStats ten_members)) = Fin (of_int lp)"
    and r: "right (biasDistribution (computeStats ten_members)) = Fin (of_int rp)"
    and c: "center (biasDistribution (computeStats ten_members)) = Fin (of_int (100 - lp - rp))"
    and dl: "\<bar>2 * int (length ten_members) * lp
              - 200 * int (length (filter (\<lambda>a. rating_includes a ''Left'') ten_members))\<bar>
             \<le> int (length ten_members)"
    and dr: "\<bar>2 * int (length ten_members) * rp
              - 200 * int (length (filter (\<lambda>a. \<not> rating_includes a ''Left'' \<and> rating_includes a ''Right'') ten_members))\<bar>
             \<le> int (length ten_members)"
    and b: "blindspot (computeStats ten_members)
               = (if lp < 15 \<and> 50 < rp then ''Left''
                  else if rp < 15 \<and> 50 < lp then ''Right'' else ''None'')"
    by blast
  have "\<bar>20 * lp - 1400\<bar> \<le> 10" using dl unfolding ten_members_counts by simp
  then have lp: "lp = 70" by presburger
  have "\<bar>20 * rp - 400\<bar> \<le> 10" using dr unfolding ten_members_counts by simp
  then have rp: "rp = 20" by presburger
  show ?thesis using t l r c b unfolding lp rp ten_members_counts by simp
qed

lemma rnd_23_40: "rnd (23 / 40) = Fin (2589569785738035 / 4503599627370496)"
  using rnd_char[of "23 / 40" "- 1" 5179139571476070] by (simp add: power_int_minus)

lemma rnd_23_40_times_100:
  "rnd (2589569785738035 / 4503599627370496 * 100) = Fin (8092405580431359 / 140737488355328)"
  using rnd_char[of "2589569785738035 / 4503599627370496 * 100" 5 8092405580431359]
  by (simp add: power_int_minus)

lemma pct_23_40: "pct 23 40 = Fin 57"
proof -
  have "\<lfloor>8092405580431359 / 140737488355328 + 1 / 2 :: rat\<rfloor> = 57"
    by (simp add: floor_eq_iff)
  then show ?thesis using rnd_23_40_times_100 by (simp add: pct_def rnd_23_40)
qed

text \<open>
  The claim fails: of 40 members 23 are rated Left. \<open>100 * 23 / 40\<close> is 57.5, which
  rounds to 58, but the double \<open>(23 / 40) * 100\<close> is just below 57.5 and \<open>leftPct\<close> is 57.
\<close>

theorem stats_rounding_counterexample:
  "count_bias forty_members (0, 0, 0) = (23, 0, 17)
   \<and> left (biasDistribution (computeStats forty_members)) = Fin 57
   \<and> \<lfloor>100 * 23 / 40 + 1 / 2 :: rat\<rfloor> = 58"
proof -
  have c: "count_bias forty_members (0, 0, 0) = (23, 0, 17)"
    by (simp add: count_bias_counts forty_members_def rated_includes)
  have n: "length forty_members = 40" by (simp add: forty_members_def)
  have l: "left (biasDistribution (computeStats forty_members)) = Fin 57"
    by (simp add: computeStats_def c n Let_def pct_23_40)
  have f: "\<lfloor>100 * 23 / 40 + 1 / 2 :: rat\<rfloor> = 58" by (simp add: floor_eq_iff)
  show ?thesis by (intro conjI c l f)
qed

section \<open>Properties of the split transaction\<close>












section \<open>The refiner on a cluster with a member without embedding\<close>

lemma rnd_m1: "rnd (- 1) = Fin (- 1)"
  by (rule rnd_num[of _ "- 1"]) simp_all

lemma isqrt_2_104: "isqrt (2 ^ 104) = 2 ^ 52"
  by (simp add: isqrt.simps)

lemma expo_1: "expo 1 = 0"
  by (simp add: expo_def bitlen.simps)

lemma sqrt_rnd_1: "sqrt_rnd 1 = 1"
  using isqrt_2_104 by (simp add: sqrt_rnd_def expo_1 Let_def power_int_minus)

lemma DUPLICATE_THRESHOLD_val: "DUPLICATE_THRESHOLD = Fin (8106479329266893 / 9007199254740992)"
  unfolding DUPLICATE_THRESHOLD_def
  using rnd_char[of "90 / 100" "- 1" 8106479329266893] by (simp add: power_int_minus)

lemma COHERENCE_THRESHOLD_val: "COHERENCE_THRESHOLD = Fin (5404319552844595 / 9007199254740992)"
  unfolding COHERENCE_THRESHOLD_def
  using rnd_char[of "60 / 100" "- 1" 5404319552844595] by (simp add: power_int_minus)

lemma cos_values:
  "cosineSimilarity (Some [Fin 1]) (Some [Fin 1]) = Fin 1"
  "cosineSimilarity (Some [Fin 1]) (Some [Fin (- 1)]) = Fin (- 1)"
  "cosineSimilarity (Some [Fin (- 1)]) (Some [Fin 1]) = Fin (- 1)"
  "cosineSimilarity (Some [Fin (- 1)]) (Some [Fin (- 1)]) = Fin 1"
  "cosineSimilarity (Some [Fin 1]) (Some [Fin 0]) = Fin 0"
  "cosineSimilarity (Some [Fin (- 1)]) (Some [Fin 0]) = Fin 0"
  by (simp_all add: cosineSimilarity_def rnd_0 rnd_1 rnd_m1 sqrt_rnd_1 or_one_def truthy_def)

lemma same_time_in_window:
  "\<not> TIME_CHECK (Fin T) \<lparr>centroid = c, articles = as, latestTime = Fin T\<rparr>"
  by (simp add: TIME_CHECK_def fsub_def rnd_0 fgt_def MAX_TIME_DIFF_MS_val)

lemma member_headlines:
  "headline (row (obj m1 v)) = Some ''h1''"
  "headline (row (obj m2 v)) = Some ''h2''"
  "headline (row (obj m3 v)) = Some ''h3''"
  "headline (row (obj m4 v)) = Some ''h4''"
  by (simp_all add: obj_def m1_def m2_def m3_def m4_def member_row_def example_row_def)

lemma member_embeddings: "obj_embedding (obj r v) = Some v" "pubDate (obj r v) = None"
  by (simp_all add: obj_def)

lemma valid_members:
  "List.map_filter member_object [m1, m2, m3, m4, m5]
     = [obj m1 [Fin 1], obj m2 [Fin (- 1)], obj m3 [Fin 1], obj m4 [Fin (- 1)]]"
  by (simp add: List.map_filter_def member_object_def obj_def m1_def m2_def m3_def m4_def m5_def
        member_row_def example_row_def)

lemma duplicate_checks:
  "duplicateMatch (\<lambda>s. s) (obj m2 [Fin (- 1)]) [obj m1 [Fin 1]] = Inr False"
  "duplicateMatch (\<lambda>s. s) (obj m3 [Fin 1]) [obj m1 [Fin 1]] = Inr True"
  "duplicateMatch (\<lambda>s. s) (obj m4 [Fin (- 1)]) [obj m1 [Fin 1], obj m3 [Fin 1]] = Inr False"
  "duplicateMatch (\<lambda>s. s) (obj m4 [Fin (- 1)]) [obj m2 [Fin (- 1)]] = Inr True"
  by (simp_all add: member_headlines member_embeddings cos_values DUPLICATE_THRESHOLD_val fge_def)

lemma step_1:
  "processArticle (\<lambda>s. s) (Fin T) (obj m1 [Fin 1]) []
     = Inr [\<lparr>centroid = Some [Fin 1], articles = [obj m1 [Fin 1]], latestTime = Fin T\<rparr>]"
  by (simp add: processArticle_def articleTime_def member_embeddings)

lemma step_2:
  "processArticle (\<lambda>s. s) (Fin T) (obj m2 [Fin (- 1)])
       [\<lparr>centroid = Some [Fin 1], articles = [obj m1 [Fin 1]], latestTime = Fin T\<rparr>]
     = Inr [\<lparr>centroid = Some [Fin 1], articles = [obj m1 [Fin 1]], latestTime = Fin T\<rparr>,
            \<lparr>centroid = Some [Fin (- 1)], articles = [obj m2 [Fin (- 1)]], latestTime = Fin T\<rparr>]"
  by (simp add: processArticle_def articleTime_def member_embeddings same_time_in_window
        duplicate_checks cos_values fgt_def Let_def del: duplicateMatch.simps)

lemma step_3:
  "processArticle (\<lambda>s. s) (Fin T) (obj m3 [Fin 1])
       [\<lparr>centroid = Some [Fin 1], articles = [obj m1 [Fin 1]], latestTime = Fin T\<rparr>,
        \<lparr>centroid = Some [Fin (- 1)], articles = [obj m2 [Fin (- 1)]], latestTime = Fin T\<rparr>]
     = Inr [\<lparr>centroid = Some [Fin 1], articles = [obj m1 [Fin 1], obj m3 [Fin 1]], latestTime = Fin T\<rparr>,
            \<lparr>centroid = Some [Fin (- 1)], articles = [obj m2 [Fin (- 1)]], latestTime = Fin T\<rparr>]"
  by (simp add: processArticle_def articleTime_def member_embeddings same_time_in_window
        duplicate_checks Let_def del: duplicateMatch.simps)

lemma step_4:
  "processArticle (\<lambda>s. s) (Fin T) (obj m4 [Fin (- 1)])
       [\<lparr>centroid = Some [Fin 1], articles = [obj m1 [Fin 1], obj m3 [Fin 1]], latestTime = Fin T\<rparr>,
        \<lparr>centroid = Some [Fin (- 1)], articles = [obj m2 [Fin (- 1)]], latestTime = Fin T\<rparr>]
     = Inr [\<lparr>centroid = Some [Fin 1], articles = [obj m1 [Fin 1], obj m3 [Fin 1]], latestTime = Fin T\<rparr>,
            \<lparr>centroid = Some [Fin (- 1)], articles = [obj m2 [Fin (- 1)], obj m4 [Fin (- 1)]],
              latestTime = Fin T\<rparr>]"
  by (simp add: processArticle_def articleTime_def member_embeddings same_time_in_window
        duplicate_checks cos_values fgt_def Let_def del: duplicateMatch.simps)

lemma recluster:
  "clusterArticles (\<lambda>s. s) (\<lambda>i. Fin T)
       [obj m1 [Fin 1], obj m2 [Fin (- 1)], obj m3 [Fin 1], obj m4 [Fin (- 1)]]
     = Inr [\<lparr>centroid = Some [Fin 1], articles = [obj m1 [Fin 1], obj m3 [Fin 1]], latestTime = Fin T\<rparr>,
            \<lparr>centroid = Some [Fin (- 1)], articles = [obj m2 [Fin (- 1)], obj m4 [Fin (- 1)]],
              latestTime = Fin T\<rparr>]"
  by (simp add: clusterArticles_def member_embeddings step_1 step_2 step_3 step_4)

lemma relabel:
  "fst (generateLabels JSON_parse (\<lambda>n. Rejected) 0
          [\<lparr>centroid = Some [Fin 1], articles = [obj m1 [Fin 1], obj m3 [Fin 1]], latestTime = Fin T\<rparr>,
           \<lparr>centroid = Some [Fin (- 1)], articles = [obj m2 [Fin (- 1)], obj m4 [Fin (- 1)]],
             latestTime = Fin T\<rparr>])
     = sub_labels"
  by (simp add: processCluster_def label_of_def sub_labels_def)

lemma summed_centroid:
  "summed_embeddings [obj m1 [Fin 1], obj m2 [Fin (- 1)], obj m3 [Fin 1], obj m4 [Fin (- 1)]]
     = Some [Fin 0]"
  by (simp add: summed_embeddings_def zero_centroid_def member_embeddings weightedVectorAdd_def
        nth_num_def rnd_0 rnd_1 rnd_m1)

lemma normalized_centroid: "normalizeVector [Fin 0] = [Fin 0]"
  using normalizeVector_zero[of 1] by simp

lemma incoherent:
  "flt (average_similarity [obj m1 [Fin 1], obj m2 [Fin (- 1)], obj m3 [Fin 1], obj m4 [Fin (- 1)]]
          [Fin 0])
       COHERENCE_THRESHOLD"
  by (simp add: average_similarity_def member_embeddings cos_values rnd_0 COHERENCE_THRESHOLD_val)

lemma member_columns:
  "cluster_id m1 = Some ''X''" "cluster_id m2 = Some ''X''" "cluster_id m3 = Some ''X''"
  "cluster_id m4 = Some ''X''" "cluster_id m5 = Some ''X''"
  "a_id m1 = Some ''m1''" "a_id m2 = Some ''m2''" "a_id m3 = Some ''m3''"
  "a_id m4 = Some ''m4''" "a_id m5 = Some ''m5''"
  by (simp_all add: m1_def m2_def m3_def m4_def m5_def member_row_def example_row_def)

lemma loaded_members: "loadClusterArticles ''X'' store_X = [m1, m2, m3, m4, m5]"
  by (simp add: loadClusterArticles_def store_X_def member_columns)

lemma split_of_X:
  "map c_id (news_clusters (splitCluster fresh_example ''X'' sub_labels store_X))
     = [''cluster-split-a'', ''cluster-split-b'']"
  "map (\<lambda>r. (a_id r, cluster_id r)) (news_articles (splitCluster fresh_example ''X'' sub_labels store_X))
     = [(Some ''m1'', Some ''cluster-split-a''), (Some ''m2'', Some ''cluster-split-b''),
        (Some ''m3'', Some ''cluster-split-a''), (Some ''m4'', Some ''cluster-split-b''),
        (Some ''m5'', Some ''X'')]"
  by (simp_all add: splitCluster_def store_X_def cluster_X_def sub_labels_def fallback_label_def
        insert_cluster_def assign_cluster_def articleIds_def fresh_example_def obj_def of_column_def
        m1_def m2_def m3_def m4_def m5_def member_row_def example_row_def)

text \<open>
  C1, at a concrete input. Cluster X is stored with five members; four have the unit
  embeddings \<open>[1]\<close>, \<open>[-1]\<close>, \<open>[1]\<close>, \<open>[-1]\<close> and the fifth has no embedding. Every
  labelling request is rejected, so the sub-clusters get fallback labels. The refiner
  finds the cluster incoherent, splits it in two and commits: X is deleted, the four
  members with an embedding point to the new clusters, and the fifth member still points
  to the deleted X.
\<close>

theorem refiner_split_orphans_member:
  "map c_id (news_clusters store_X) = [''X'']
   \<and> map (\<lambda>r. (a_id r, cluster_id r)) (news_articles store_X)
       = [(Some ''m1'', Some ''X''), (Some ''m2'', Some ''X''), (Some ''m3'', Some ''X''),
          (Some ''m4'', Some ''X''), (Some ''m5'', Some ''X'')]
   \<and> (case refine_cluster (\<lambda>s. s) (\<lambda>i. Fin 1700000000000) JSON_parse (\<lambda>n. Rejected)
              fresh_example cluster_X store_X of
         Inl e \<Rightarrow> False
       | Inr st' \<Rightarrow>
           map c_id (news_clusters st') = [''cluster-split-a'', ''cluster-split-b'']
           \<and> map (\<lambda>r. (a_id r, cluster_id r)) (news_articles st')
               = [(Some ''m1'', Some ''cluster-split-a''), (Some ''m2'', Some ''cluster-split-b''),
                  (Some ''m3'', Some ''cluster-split-a''), (Some ''m4'', Some ''cluster-split-b''),
                  (Some ''m5'', Some ''X'')])"
proof -
  have a: "map c_id (news_clusters store_X) = [''X'']" by (simp add: store_X_def cluster_X_def)
  have b: "map (\<lambda>r. (a_id r, cluster_id r)) (news_articles store_X)
       = [(Some ''m1'', Some ''X''), (Some ''m2'', Some ''X''), (Some ''m3'', Some ''X''),
          (Some ''m4'', Some ''X''), (Some ''m5'', Some ''X'')]"
    by (simp add: store_X_def member_columns)
  have x: "c_id cluster_X = ''X''" by (simp add: cluster_X_def)
  have r: "refine_cluster (\<lambda>s. s) (\<lambda>i. Fin 1700000000000) JSON_parse (\<lambda>n. Rejected)
              fresh_example cluster_X store_X
             = Inr (splitCluster fresh_example ''X'' sub_labels store_X)"
    by (simp add: refine_cluster_def Let_def loaded_members valid_members summed_centroid
          normalized_centroid incoherent recluster relabel x
          del: map_filter_simps generateLabels.simps)
  show ?thesis unfolding r by (simp only: sum.case split_of_X a b simp_thms)
qed

section \<open>Upsert conflict rule\<close>

lemma do_update_frame:
  "(do_update old ex) \<lparr> fetched_at := x, headline := y, image_url := z \<rparr>
     = old \<lparr> fetched_at := x, headline := y, image_url := z \<rparr>"
  by (simp add: do_update_def)

text \<open>
  C9. When the upsert hits a stored row with the incoming id, the statement succeeds, the
  table keeps its length and order, every row with another id is untouched, and the hit row
  takes the incoming \<open>fetched_at\<close> and \<open>headline\<close>, keeps its \<open>image_url\<close> when that is
  not NULL (taking the incoming one otherwise), and keeps every other column.
\<close>

theorem upsert_conflict_rule:
  assumes hit: "i < length rows" "a_id (rows ! i) = Some k" "r_id a = Some k"
  shows "\<exists>rows'. upsert_run rows a = Inr rows' \<and> length rows' = length rows
           \<and> (\<forall>j < length rows. a_id (rows ! j) \<noteq> Some k \<longrightarrow> rows' ! j = rows ! j)
           \<and> fetched_at (rows' ! i) = fetchedAt a
           \<and> headline (rows' ! i) = r_headline a
           \<and> (\<forall>u. image_url (rows ! i) = Some u \<longrightarrow> image_url (rows' ! i) = Some u)
           \<and> (image_url (rows ! i) = None \<longrightarrow> image_url (rows' ! i) = imageUrl a)
           \<and> rows' ! i = (rows ! i) \<lparr> fetched_at := fetched_at (rows' ! i),
                 headline := headline (rows' ! i), image_url := image_url (rows' ! i) \<rparr>"
proof -
  let ?ex = "excluded_row a"
  have ex_id: "a_id ?ex = Some k" using hit(3) by (simp add: excluded_row_def)
  have c: "id_conflict ?ex (rows ! i)" using hit(2) ex_id by (simp add: id_conflict_def)
  have "rows ! i \<in> set rows" using hit(1) by simp
  with c have ex: "list_ex (id_conflict ?ex) rows" by (auto simp: list_ex_iff)
  let ?rows' = "map (\<lambda>r. if id_conflict ?ex r then do_update r ?ex else r) rows"
  have run: "upsert_run rows a = Inr ?rows'" using ex by (simp add: upsert_run_def Let_def)
  have at_i: "?rows' ! i = do_update (rows ! i) ?ex" using hit(1) c by simp
  have other: "\<forall>j < length rows. a_id (rows ! j) \<noteq> Some k \<longrightarrow> ?rows' ! j = rows ! j"
    using ex_id by (simp add: id_conflict_def)
  have f: "fetched_at (?rows' ! i) = fetchedAt a"
    unfolding at_i by (simp add: do_update_def excluded_row_def)
  have h: "headline (?rows' ! i) = r_headline a"
    unfolding at_i by (simp add: do_update_def excluded_row_def)
  have im1: "\<forall>u. image_url (rows ! i) = Some u \<longrightarrow> image_url (?rows' ! i) = Some u"
    unfolding at_i by (simp add: do_update_def COALESCE_def)
  have im2: "image_url (rows ! i) = None \<longrightarrow> image_url (?rows' ! i) = imageUrl a"
    unfolding at_i by (simp add: do_update_def COALESCE_def excluded_row_def)
  have fr: "?rows' ! i = (rows ! i) \<lparr> fetched_at := fetched_at (?rows' ! i),
                 headline := headline (?rows' ! i), image_url := image_url (?rows' ! i) \<rparr>"
    unfolding at_i by (simp add: do_update_def)
  show ?thesis using run other f h im1 im2 fr by simp
qed

theorem upsert_conflict_rule_witness:
  "upsert_run [stored_example] incoming_example =
     Inr [stored_example \<lparr> fetched_at := Some ''2024-01-02T01:00:00.000Z'',
                             headline := Some ''New headline'' \<rparr>]"
proof -
  have h1: "0 < length [stored_example]" by simp
  have h2: "a_id ([stored_example] ! 0) = Some ''a1''" by (simp add: stored_example_def)
  have h3: "r_id incoming_example = Some ''a1''" by (simp add: incoming_example_def)
  from upsert_conflict_rule [OF h1 h2 h3]
  obtain rows' where r: "upsert_run [stored_example] incoming_example = Inr rows'"
    and l: "length rows' = length [stored_example]"
    and f: "fetched_at (rows' ! 0) = fetchedAt incoming_example"
    and h: "headline (rows' ! 0) = r_headline incoming_example"
    and im: "\<forall>u. image_url ([stored_example] ! 0) = Some u \<longrightarrow> image_url (rows' ! 0) = Some u"
    and fr: "rows' ! 0 = ([stored_example] ! 0) \<lparr> fetched_at := fetched_at (rows' ! 0),
                 headline := headline (rows' ! 0), image_url := image_url (rows' ! 0) \<rparr>"
    by blast
  from l obtain x where x: "rows' = [x]" by (cases rows') auto
  have "image_url x = Some ''http://x/1.png''" using im x by (simp add: stored_example_def)
  then have "x = stored_example \<lparr> fetched_at := Some ''2024-01-02T01:00:00.000Z'',
                             headline := Some ''New headline'' \<rparr>"
    using fr f h x by (simp add: stored_example_def incoming_example_def)
  with r x show ?thesis by simp
qed

end
